theory Spec2Isabelle
  imports Complex_Main "HOL-Library.AList" "HOL-Library.Option_ord" "HOL-Library.Log_Nat"
begin

section \<open>Lucky for Life analyzer: data model\<close>

text \<open>
  The embedding follows \<^verbatim>\<open>src/lucky_for_life_analyzer.py\<close>. Conventions:
  \<^item> a row of the DataFrame is a \<open>draw\<close> record with the columns \<^verbatim>\<open>Date\<close>,
    \<^verbatim>\<open>Number 1\<close> .. \<^verbatim>\<open>Number 5\<close> and \<^verbatim>\<open>Lucky Ball\<close>; a timestamp is an integer;
  \<^item> a DataFrame is the list of its rows, each paired with its index label. The labels
    matter: \<^verbatim>\<open>iterrows()\<close> yields them, \<^verbatim>\<open>reset_index\<close> renumbers them from 0, and
    \<^verbatim>\<open>iloc[k:]\<close> and \<^verbatim>\<open>head(n)\<close> keep the labels the rows already have;
  \<^item> a \<^verbatim>\<open>dict\<close>, \<^verbatim>\<open>Counter\<close> or \<^verbatim>\<open>defaultdict\<close> is an association list in insertion order
    (\<open>AList.update\<close> overwrites a key in place and appends a new key at the end, as
    Python does), since \<^verbatim>\<open>most_common\<close>, \<^verbatim>\<open>sorted\<close> and \<^verbatim>\<open>max\<close> break ties by that order;
  \<^item> Python integers are \<open>int\<close>; a floating-point value is the rational number the
    double denotes, every floating-point operation rounds its exact result to the nearest
    double (\<open>float64\<close> below), and \<open>None\<close> stands for \<^verbatim>\<open>float('inf')\<close> where the source
    can produce it;
  \<^item> an exception is the \<open>Inl\<close> branch of a sum.
\<close>

datatype py_error = IndexError | ValueError | KeyError | ZeroDivisionError

type_synonym timestamp = int

record draw =
  Date :: timestamp
  Number1 :: int
  Number2 :: int
  Number3 :: int
  Number4 :: int
  Number5 :: int
  Lucky_Ball :: int

type_synonym dataframe = "(int \<times> draw) list"

record analyzer =
  df :: dataframe
  main_numbers_range :: "int list"
  lucky_ball_range :: "int list"

text \<open>\<^verbatim>\<open>df.reset_index(drop=True)\<close>: the rows labelled 0, 1, 2, ...\<close>

definition reset_index :: "draw list \<Rightarrow> dataframe" where
  "reset_index rows = zip (map int [0..<length rows]) rows"

text \<open>
  \<^verbatim>\<open>__init__\<close>, after the CSV has been read, its footer dropped and the rows sorted by date,
  most recent first (the argument \<open>rows\<close> is that sorted list).
\<close>

definition LuckyForLifeAnalyzer :: "draw list \<Rightarrow> analyzer" where
  "LuckyForLifeAnalyzer rows =
     \<lparr>df = reset_index rows, main_numbers_range = [1..48], lucky_ball_range = [1..18]\<rparr>"

text \<open>
  \<^verbatim>\<open>df.head(n)\<close>, and the slice \<^verbatim>\<open>xs[:n]\<close> of a list, which agree: the first \<open>n\<close>
  elements, and for a negative \<open>n\<close> all but the last \<open>-n\<close>.
\<close>

definition head :: "int \<Rightarrow> 'a list \<Rightarrow> 'a list" where
  "head n xs = (if 0 \<le> n then take (nat n) xs else take (length xs - nat (- n)) xs)"

text \<open>\<^verbatim>\<open>[int(row[f'Number {i}']) for i in range(1, 6)]\<close>\<close>

definition numbers_in_draw :: "draw \<Rightarrow> int list" where
  "numbers_in_draw row = [Number1 row, Number2 row, Number3 row, Number4 row, Number5 row]"

subsection \<open>Counters\<close>

type_synonym 'k counter = "('k \<times> int) list"

text \<open>\<^verbatim>\<open>c[k]\<close> on a Counter: 0 for a missing key.\<close>

definition counter_get :: "'k counter \<Rightarrow> 'k \<Rightarrow> int" where
  "counter_get c k = (case map_of c k of None \<Rightarrow> 0 | Some v \<Rightarrow> v)"

text \<open>\<^verbatim>\<open>c[k] += 1\<close>\<close>

definition counter_incr :: "'k \<Rightarrow> 'k counter \<Rightarrow> 'k counter" where
  "counter_incr k c = AList.update k (counter_get c k + 1) c"

text \<open>
  \<^verbatim>\<open>c.most_common(n)\<close> is \<^verbatim>\<open>sorted(c.items(), key=itemgetter(1), reverse=True)[:n]\<close>:
  a stable sort by descending count.
\<close>

definition most_common :: "nat \<Rightarrow> 'k counter \<Rightarrow> ('k \<times> int) list" where
  "most_common n c = take n (sort_key (\<lambda>kv. - snd kv) c)"

text \<open>\<^verbatim>\<open>sorted(c.items(), key=lambda x: x[1])\<close>: a stable sort by ascending count.\<close>

definition sorted_by_count :: "'k counter \<Rightarrow> ('k \<times> int) list" where
  "sorted_by_count c = sort_key snd c"

text \<open>
  \<^verbatim>\<open>max(items, key=f)\<close>: the first element whose key is maximal; \<^verbatim>\<open>ValueError\<close> on an
  empty sequence.
\<close>

definition py_max :: "('a \<Rightarrow> int) \<Rightarrow> 'a list \<Rightarrow> py_error + 'a" where
  "py_max f xs =
     (case xs of [] \<Rightarrow> Inl ValueError
      | x # rest \<Rightarrow> Inr (foldl (\<lambda>m y. if f m < f y then y else m) x rest))"

section \<open>Frequency engine\<close>

text \<open>The body of the row loop of \<^verbatim>\<open>frequency_analysis\<close> and \<^verbatim>\<open>recent_analysis\<close>.\<close>

definition count_row :: "int counter \<times> int counter \<Rightarrow> int \<times> draw \<Rightarrow> int counter \<times> int counter" where
  "count_row acc r =
     (foldl (\<lambda>m n. counter_incr n m) (fst acc) (numbers_in_draw (snd r)),
      counter_incr (Lucky_Ball (snd r)) (snd acc))"

definition frequency_analysis :: "analyzer \<Rightarrow> int counter \<times> int counter" where
  "frequency_analysis self = foldl count_row ([], []) (df self)"

definition recent_analysis :: "analyzer \<Rightarrow> int \<Rightarrow> int counter \<times> int counter" where
  "recent_analysis self last_n_draws =
     (let recent_df = head last_n_draws (df self) in foldl count_row ([], []) recent_df)"

section \<open>Gap and overdue analyzer\<close>

text \<open>\<^verbatim>\<open>gaps[num]\<close> on the \<^verbatim>\<open>defaultdict(list)\<close>: the empty list for a missing key.\<close>

definition gaps_get :: "(int \<times> int list) list \<Rightarrow> int \<Rightarrow> int list" where
  "gaps_get gaps num = (case map_of gaps num of None \<Rightarrow> [] | Some l \<Rightarrow> l)"

text \<open>
  The inner loop body of \<^verbatim>\<open>gap_analysis\<close> for one number of the row labelled \<open>idx\<close>;
  the state is \<open>(last_seen, gaps)\<close>.
\<close>

definition gap_see ::
  "int \<Rightarrow> (int \<times> int) list \<times> (int \<times> int list) list \<Rightarrow> int
     \<Rightarrow> (int \<times> int) list \<times> (int \<times> int list) list" where
  "gap_see idx st num =
     (let last_seen = fst st; gaps = snd st;
          gaps' = (case map_of last_seen num of
                     None \<Rightarrow> gaps
                   | Some l \<Rightarrow> AList.update num (gaps_get gaps num @ [idx - l]) gaps)
      in (AList.update num idx last_seen, gaps'))"

definition gap_row ::
  "(int \<times> int) list \<times> (int \<times> int list) list \<Rightarrow> int \<times> draw
     \<Rightarrow> (int \<times> int) list \<times> (int \<times> int list) list" where
  "gap_row st r = foldl (gap_see (fst r)) st (numbers_in_draw (snd r))"

subsection \<open>Double-precision arithmetic\<close>

text \<open>Rounding to an integer, ties to the even neighbour (\<^verbatim>\<open>rint\<close>).\<close>

definition round_half_even :: "rat \<Rightarrow> int" where
  "round_half_even x =
     (let f = \<lfloor>x\<rfloor>; d = x - of_int f
      in if d < 1 / 2 then f else if 1 / 2 < d then f + 1 else if even f then f else f + 1)"

definition pow2 :: "int \<Rightarrow> rat" where
  "pow2 e = (if 0 \<le> e then 2 ^ nat e else 1 / 2 ^ nat (- e))"

text \<open>
  A rational is a double when, in lowest terms, its denominator is a power of two and its
  numerator has at most 53 bits (the exponent range of doubles is far from the values
  that arise here and is left out).
\<close>

definition representable :: "rat \<Rightarrow> bool" where
  "representable x =
     (let p = fst (quotient_of x); q = snd (quotient_of x)
      in q = 2 ^ nat (bitlen q - 1) \<and> bitlen \<bar>p\<bar> \<le> 53)"

text \<open>
  The double nearest to \<open>x\<close>, ties to the even significand: a double is returned as it
  is; otherwise \<open>x\<close> lies in a binade \<open>2^e \<le> |x| < 2^(e+1)\<close> and is rounded to a multiple of
  \<open>2^(e-52)\<close>.
\<close>

definition float64 :: "rat \<Rightarrow> rat" where
  "float64 x =
     (if representable x then x
      else
        (let a = \<bar>x\<bar>; p = fst (quotient_of a); q = snd (quotient_of a);
             d = bitlen p - bitlen q;
             e = (if pow2 d \<le> a then d else d - 1);
             ulp = pow2 (e - 52)
         in sgn x * of_int (round_half_even (a / ulp)) * ulp))"

text \<open>
  \<^verbatim>\<open>round(x, ndigits)\<close> on a numpy double (the averages are \<^verbatim>\<open>np.float64\<close>, and so are
  the quotients by them): numpy multiplies by \<open>10^ndigits\<close>, applies \<^verbatim>\<open>rint\<close> and divides
  again, each step in double precision.
\<close>

definition py_round :: "rat \<Rightarrow> nat \<Rightarrow> rat" where
  "py_round x ndigits =
     float64 (of_int (round_half_even (float64 (x * 10 ^ ndigits))) / 10 ^ ndigits)"

subsection \<open>Average gaps and the overdue test\<close>

text \<open>
  \<^verbatim>\<open>np.mean(gap_list) if gap_list else float('inf')\<close>: the sum of the integer gaps,
  divided by their number in double precision.
\<close>

definition mean_gap :: "int list \<Rightarrow> rat option" where
  "mean_gap gap_list =
     (if gap_list \<noteq> []
      then Some (float64 (of_int (sum_list gap_list) / of_int (int (length gap_list))))
      else None)"

definition gap_analysis :: "analyzer \<Rightarrow> (int \<times> rat option) list \<times> (int \<times> int) list" where
  "gap_analysis self =
     (let st = foldl gap_row ([], []) (df self);
          last_seen = fst st; gaps = snd st;
          avg_gaps = map (\<lambda>(num, gap_list). (num, mean_gap gap_list)) gaps;
          current_gap = foldl (\<lambda>cg num.
              AList.update num
                (case map_of last_seen num of
                   Some l \<Rightarrow> 0 - l
                 | None \<Rightarrow> int (length (df self))) cg) [] (main_numbers_range self)
      in (avg_gaps, current_gap))"

record overdue_entry =
  current_gap :: int
  avg_gap :: "rat option"
  ratio :: "rat option"

text \<open>
  \<^verbatim>\<open>current > avg * threshold_multiplier\<close>: the product is rounded to a double, the
  comparison with the integer is exact. The multiplier is the double the caller passes.
  With \<open>avg = inf\<close> the product is \<open>inf\<close>, \<open>nan\<close> or \<open>-inf\<close> as the multiplier is positive,
  zero or negative.
\<close>

definition exceeds :: "int \<Rightarrow> rat option \<Rightarrow> rat \<Rightarrow> bool" where
  "exceeds current avg threshold_multiplier =
     (case avg of
        Some a \<Rightarrow> float64 (a * threshold_multiplier) < of_int current
      | None \<Rightarrow> threshold_multiplier < 0)"

text \<open>
  \<^verbatim>\<open>round(avg, 1)\<close> and \<^verbatim>\<open>round(current / avg, 2)\<close>. The quotient is rounded to a double
  before \<^verbatim>\<open>round\<close> sees it. The average is a numpy float, so dividing a positive
  \<open>current\<close> by a zero average gives \<open>inf\<close>, and dividing by \<open>inf\<close> gives 0.
\<close>

definition round_avg :: "rat option \<Rightarrow> rat option" where
  "round_avg avg = (case avg of Some a \<Rightarrow> Some (py_round a 1) | None \<Rightarrow> None)"

definition round_ratio :: "int \<Rightarrow> rat option \<Rightarrow> rat option" where
  "round_ratio current avg =
     (case avg of
        Some a \<Rightarrow> (if a = 0 then None else Some (py_round (float64 (of_int current / a)) 2))
      | None \<Rightarrow> Some 0)"

definition get_overdue_numbers :: "analyzer \<Rightarrow> rat \<Rightarrow> (int \<times> overdue_entry) list" where
  "get_overdue_numbers self threshold_multiplier =
     (let avg_gaps = fst (gap_analysis self); current_gaps = snd (gap_analysis self)
      in foldl (\<lambda>overdue num.
           case (map_of avg_gaps num, map_of current_gaps num) of
             (Some avg, Some cg) \<Rightarrow>
               (let current = \<bar>cg\<bar>
                in if exceeds current avg threshold_multiplier
                   then AList.update num
                          \<lparr>current_gap = current, avg_gap = round_avg avg,
                           ratio = round_ratio current avg\<rparr> overdue
                   else overdue)
           | _ \<Rightarrow> overdue) [] (main_numbers_range self))"

section \<open>Strategy engine\<close>

record recommendation =
  main_numbers :: "int list"
  lucky_ball :: "int list"
  reasoning :: string

text \<open>
  \<^verbatim>\<open>_get_overdue_lucky_ball\<close>: the label of the first row showing each lucky ball, then
  the ball whose label is largest in absolute value.
\<close>

definition get_overdue_lucky_ball :: "analyzer \<Rightarrow> py_error + int" where
  "get_overdue_lucky_ball self =
     (let last_seen = foldl (\<lambda>ls r.
            let lb = Lucky_Ball (snd r)
            in if lb \<notin> fst ` set ls then AList.update lb (fst r) ls else ls) [] (df self)
      in case py_max (\<lambda>x. \<bar>snd x\<bar>) last_seen of
           Inl e \<Rightarrow> Inl e
         | Inr overdue_lb \<Rightarrow> Inr (fst overdue_lb))"

text \<open>
  \<^verbatim>\<open>sorted(overdue.items(), key=lambda x: x[1]['ratio'], reverse=True)\<close>: a stable sort by
  descending ratio. The key is the negated ratio, \<open>None\<close> (for \<open>-inf\<close>) below every number.
\<close>

definition neg_ratio :: "int \<times> overdue_entry \<Rightarrow> rat option" where
  "neg_ratio x = (case ratio (snd x) of None \<Rightarrow> None | Some r \<Rightarrow> Some (- r))"

definition overdue_sorted :: "(int \<times> overdue_entry) list \<Rightarrow> (int \<times> overdue_entry) list" where
  "overdue_sorted overdue = sort_key neg_ratio overdue"

text \<open>\<^verbatim>\<open>c.most_common(1)[0][0]\<close>, as a one-element list.\<close>

definition top_lucky :: "int counter \<Rightarrow> py_error + int list" where
  "top_lucky freq = (case most_common 1 freq of [] \<Rightarrow> Inl IndexError | kv # _ \<Rightarrow> Inr [fst kv])"

definition recommend_hot :: "int counter \<Rightarrow> int counter \<Rightarrow> py_error + recommendation" where
  "recommend_hot main_freq lucky_freq =
     (let hot_numbers = map fst (most_common 10 main_freq)
      in case top_lucky lucky_freq of
           Inl e \<Rightarrow> Inl e
         | Inr lb \<Rightarrow> Inr \<lparr>main_numbers = take 5 hot_numbers, lucky_ball = lb,
                         reasoning = ''Hot numbers: Most frequently drawn overall''\<rparr>)"

definition recommend_cold :: "int counter \<Rightarrow> int counter \<Rightarrow> py_error + recommendation" where
  "recommend_cold main_freq lucky_freq =
     (let cold_numbers = map fst (take 10 (sorted_by_count main_freq))
      in case sorted_by_count lucky_freq of
           [] \<Rightarrow> Inl IndexError
         | kv # _ \<Rightarrow> Inr \<lparr>main_numbers = take 5 cold_numbers, lucky_ball = [fst kv],
                          reasoning = ''Cold numbers: Least frequently drawn''\<rparr>)"

definition recommend_overdue ::
  "analyzer \<Rightarrow> (int \<times> overdue_entry) list \<Rightarrow> py_error + recommendation" where
  "recommend_overdue self overdue =
     (case get_overdue_lucky_ball self of
        Inl e \<Rightarrow> Inl e
      | Inr lb \<Rightarrow> Inr \<lparr>main_numbers = map fst (take 5 (overdue_sorted overdue)), lucky_ball = [lb],
                      reasoning = ''Overdue numbers: Haven'' @ [CHR 0x27] @
                                  ''t appeared in longer than average''\<rparr>)"

definition recommend_recent_hot :: "int counter \<Rightarrow> int counter \<Rightarrow> py_error + recommendation" where
  "recommend_recent_hot recent_main recent_lucky =
     (let hot_recent = map fst (most_common 10 recent_main)
      in case top_lucky recent_lucky of
           Inl e \<Rightarrow> Inl e
         | Inr lb \<Rightarrow> Inr \<lparr>main_numbers = take 5 hot_recent, lucky_ball = lb,
                         reasoning = ''Recent hot: Most frequent in last 50 draws''\<rparr>)"

text \<open>\<^verbatim>\<open>{n: main_freq[n] for n in region if n in main_freq}\<close>\<close>

definition region_freq :: "int counter \<Rightarrow> int list \<Rightarrow> (int \<times> int) list" where
  "region_freq main_freq region =
     map (\<lambda>n. (n, counter_get main_freq n)) (filter (\<lambda>n. n \<in> fst ` set main_freq) region)"

text \<open>\<^verbatim>\<open>selected.append(max(region_freq.items(), key=lambda x: x[1])[0])\<close>\<close>

definition append_top :: "int list \<Rightarrow> (int \<times> int) list \<Rightarrow> py_error + int list" where
  "append_top selected freq =
     (case py_max snd freq of Inl e \<Rightarrow> Inl e | Inr kv \<Rightarrow> Inr (selected @ [fst kv]))"

definition recommend_jackpot_spread ::
  "int counter \<Rightarrow> int counter \<Rightarrow> int counter \<Rightarrow> py_error + recommendation" where
  "recommend_jackpot_spread main_freq lucky_freq recent_main =
     (let low = [1..12]; mid_low = [13..24]; mid_high = [25..36]; high = [37..48]
      in case append_top [] (region_freq main_freq low) of Inl e \<Rightarrow> Inl e | Inr s1 \<Rightarrow>
        (case append_top s1 (region_freq main_freq mid_low) of Inl e \<Rightarrow> Inl e | Inr s2 \<Rightarrow>
        (case append_top s2 (region_freq main_freq mid_high) of Inl e \<Rightarrow> Inl e | Inr s3 \<Rightarrow>
        (case append_top s3 (region_freq main_freq high) of Inl e \<Rightarrow> Inl e | Inr s4 \<Rightarrow>
        (let selected =
               (case filter (\<lambda>num. num \<notin> set s4) (map fst (most_common 20 recent_main)) of
                  [] \<Rightarrow> s4
                | num # _ \<Rightarrow> s4 @ [num])
         in (case top_lucky lucky_freq of
               Inl e \<Rightarrow> Inl e
             | Inr lb \<Rightarrow> Inr \<lparr>main_numbers = sort (take 5 selected), lucky_ball = lb,
                   reasoning = ''Jackpot spread: Maximum coverage across number ranges''\<rparr>))))))"

text \<open>\<^verbatim>\<open>selected.extend([n for n in nums if n not in selected][:k])\<close>\<close>

definition extend_fresh :: "int list \<Rightarrow> int list \<Rightarrow> nat \<Rightarrow> int list" where
  "extend_fresh selected nums k = selected @ take k (filter (\<lambda>n. n \<notin> set selected) nums)"

definition recommend_balanced ::
  "int counter \<Rightarrow> int counter \<Rightarrow> int counter \<Rightarrow> (int \<times> overdue_entry) list
     \<Rightarrow> py_error + recommendation" where
  "recommend_balanced main_freq lucky_freq recent_main overdue =
     (let hot_nums = map fst (most_common 15 main_freq);
          overdue_nums = map fst (take 10 (overdue_sorted overdue));
          recent_nums = map fst (most_common 10 recent_main);
          selected = extend_fresh (extend_fresh (extend_fresh [] hot_nums 2) overdue_nums 2)
                       recent_nums 1
      in case most_common 3 lucky_freq of
           _ # kv # _ \<Rightarrow> Inr \<lparr>main_numbers = take 5 selected, lucky_ball = [fst kv],
                 reasoning = ''Balanced: Mix of hot, overdue, and recent numbers''\<rparr>
         | _ \<Rightarrow> Inl IndexError)"

definition generate_recommendations :: "analyzer \<Rightarrow> string \<Rightarrow> py_error + recommendation" where
  "generate_recommendations self strategy =
     (let main_freq = fst (frequency_analysis self); lucky_freq = snd (frequency_analysis self);
          recent_main = fst (recent_analysis self 50); recent_lucky = snd (recent_analysis self 50);
          overdue = get_overdue_numbers self (3 / 2)
      in if strategy = ''hot'' then recommend_hot main_freq lucky_freq
         else if strategy = ''cold'' then recommend_cold main_freq lucky_freq
         else if strategy = ''overdue'' then recommend_overdue self overdue
         else if strategy = ''recent_hot'' then recommend_recent_hot recent_main recent_lucky
         else if strategy = ''jackpot_spread''
           then recommend_jackpot_spread main_freq lucky_freq recent_main
         else recommend_balanced main_freq lucky_freq recent_main overdue)"

record number_set =
  set_number :: int
  set_strategy :: string
  set_numbers :: "int list"
  set_lucky_ball :: int
  set_reasoning :: string

text \<open>The loop of \<^verbatim>\<open>generate_multiple_sets\<close> over \<^verbatim>\<open>enumerate(strategies[:num_sets], 1)\<close>.\<close>

fun multiple_sets_loop :: "analyzer \<Rightarrow> int \<Rightarrow> string list \<Rightarrow> py_error + number_set list" where
  "multiple_sets_loop self i [] = Inr []"
| "multiple_sets_loop self i (s # ss) =
     (case generate_recommendations self s of
        Inl e \<Rightarrow> Inl e
      | Inr rec \<Rightarrow>
          (case lucky_ball rec of
             [] \<Rightarrow> Inl IndexError
           | lb # _ \<Rightarrow>
               (case multiple_sets_loop self (i + 1) ss of
                  Inl e \<Rightarrow> Inl e
                | Inr sets \<Rightarrow>
                    Inr (\<lparr>set_number = i, set_strategy = s, set_numbers = sort (main_numbers rec),
                          set_lucky_ball = lb, set_reasoning = reasoning rec\<rparr> # sets))))"

definition generate_multiple_sets ::
  "analyzer \<Rightarrow> int \<Rightarrow> string list option \<Rightarrow> py_error + number_set list" where
  "generate_multiple_sets self num_sets strategies =
     (let strategies' = (case strategies of
                           None \<Rightarrow> [''balanced'', ''hot'', ''overdue'']
                         | Some ss \<Rightarrow> ss)
      in multiple_sets_loop self 1 (head num_sets strategies'))"

section \<open>Prize evaluator\<close>

text \<open>\<^verbatim>\<open>len(set(numbers) & set(winning_numbers))\<close>\<close>

definition count_matches :: "int list \<Rightarrow> int list \<Rightarrow> int" where
  "count_matches numbers winning_numbers = int (card (set numbers \<inter> set winning_numbers))"

text \<open>
  The prize cascade of \<^verbatim>\<open>check_ticket\<close> (live checking): the dollar amount and the
  description. The amounts are whole dollars.
\<close>

definition ticket_prize :: "int \<Rightarrow> bool \<Rightarrow> int \<times> string" where
  "ticket_prize main_matches lucky_match =
     (if main_matches = 5 \<and> lucky_match then (0, ''JACKPOT! $1,000/Day for Life'')
      else if main_matches = 5 then (0, ''2nd Prize! $25,000/Year for Life'')
      else if main_matches = 4 \<and> lucky_match then (5000, ''$5,000'')
      else if main_matches = 4 then (200, ''$200'')
      else if main_matches = 3 \<and> lucky_match then (150, ''$150'')
      else if main_matches = 3 then (20, ''$20'')
      else if main_matches = 2 \<and> lucky_match then (25, ''$25'')
      else if main_matches = 2 then (3, ''$3'')
      else if main_matches = 1 \<and> lucky_match then (6, ''$6'')
      else if lucky_match then (4, ''$4'')
      else (0, ''No win''))"

text \<open>The prize cascade of \<^verbatim>\<open>backtest_strategies\<close>.\<close>

definition backtest_prize :: "int \<Rightarrow> bool \<Rightarrow> int" where
  "backtest_prize main_matches lucky_match =
     (if main_matches = 5 \<and> lucky_match then 1000000
      else if main_matches = 5 then 25000
      else if main_matches = 4 \<and> lucky_match then 5000
      else if main_matches = 4 then 200
      else if main_matches = 3 \<and> lucky_match then 150
      else if main_matches = 3 then 20
      else if main_matches = 2 \<and> lucky_match then 25
      else if main_matches = 2 then 3
      else if main_matches = 1 \<and> lucky_match then 6
      else if lucky_match then 4
      else 0)"

record ticket_result =
  main_matches :: int
  lucky_match :: bool
  prize :: int
  prize_description :: string
  winning_numbers :: "int list"
  winning_lucky :: int
  your_numbers :: "int list"
  your_lucky :: int

text \<open>
  \<^verbatim>\<open>check_ticket\<close>, with the date already a timestamp. The value is the returned pair
  \<open>(result, error)\<close> together with the analyzer as the call leaves it.
\<close>

definition check_ticket ::
  "analyzer \<Rightarrow> int list \<Rightarrow> int \<Rightarrow> timestamp
     \<Rightarrow> (ticket_result option \<times> string option) \<times> analyzer" where
  "check_ticket self numbers lucky drawing_date =
     (let drawing = filter (\<lambda>r. Date (snd r) = drawing_date) (df self)
      in case drawing of
           [] \<Rightarrow> ((None, Some ''Drawing date not found''), self)
         | r # _ \<Rightarrow>
             (let winning = numbers_in_draw (snd r);
                  winning_lb = Lucky_Ball (snd r);
                  matches = count_matches numbers winning;
                  lucky_eq = (lucky = winning_lb);
                  p = ticket_prize matches lucky_eq
              in ((Some \<lparr>main_matches = matches, lucky_match = lucky_eq, prize = fst p,
                          prize_description = snd p, winning_numbers = winning,
                          winning_lucky = winning_lb, your_numbers = numbers,
                          your_lucky = lucky\<rparr>, None), self)))"

section \<open>Walk-forward backtester\<close>

record strategy_result =
  wins :: int
  total_prize :: int
  tickets :: int
  matches_dist :: "int counter"

type_synonym backtest_results = "(string \<times> strategy_result) list"

text \<open>
  \<^verbatim>\<open>{s: {'wins': 0, 'total_prize': 0, 'tickets': 0, 'matches_dist': Counter()}
     for s in strategies}\<close>
\<close>

definition initial_results :: "string list \<Rightarrow> backtest_results" where
  "initial_results strategies =
     foldl (\<lambda>m s. AList.update s \<lparr>wins = 0, total_prize = 0, tickets = 0, matches_dist = []\<rparr> m)
       [] strategies"

text \<open>
  The body of the strategy loop: the recommendation of the temporary analyzer, scored
  against the actual draw, accumulated into the strategy's entry.
\<close>

definition simulate_pick ::
  "analyzer \<Rightarrow> int list \<Rightarrow> int \<Rightarrow> backtest_results \<Rightarrow> string \<Rightarrow> py_error + backtest_results" where
  "simulate_pick temp_analyzer winning winning_lb strategy_results s =
     (case generate_recommendations temp_analyzer s of
        Inl e \<Rightarrow> Inl e
      | Inr rec \<Rightarrow>
          (case lucky_ball rec of
             [] \<Rightarrow> Inl IndexError
           | predicted_lucky # _ \<Rightarrow>
               (let matches = count_matches (main_numbers rec) winning;
                    lucky_eq = (predicted_lucky = winning_lb);
                    p = backtest_prize matches lucky_eq
                in case map_of strategy_results s of
                     None \<Rightarrow> Inl KeyError
                   | Some r \<Rightarrow>
                       Inr (AList.update s
                              \<lparr>wins = (if 0 < p then wins r + 1 else wins r),
                               total_prize = total_prize r + p,
                               tickets = tickets r + 1,
                               matches_dist = counter_incr matches (matches_dist r)\<rparr>
                              strategy_results))))"

fun simulate_strategies ::
  "analyzer \<Rightarrow> int list \<Rightarrow> int \<Rightarrow> backtest_results \<Rightarrow> string list
     \<Rightarrow> py_error + backtest_results" where
  "simulate_strategies temp_analyzer winning winning_lb strategy_results [] = Inr strategy_results"
| "simulate_strategies temp_analyzer winning winning_lb strategy_results (s # ss) =
     (case simulate_pick temp_analyzer winning winning_lb strategy_results s of
        Inl e \<Rightarrow> Inl e
      | Inr strategy_results' \<Rightarrow>
          simulate_strategies temp_analyzer winning winning_lb strategy_results' ss)"

text \<open>
  \<^verbatim>\<open>historical_data = self.df.iloc[idx+1:].copy()\<close> and the temporary analyzer built on it.
  The slice keeps the index labels of the full frame.
\<close>

definition historical_data :: "analyzer \<Rightarrow> nat \<Rightarrow> dataframe" where
  "historical_data self idx = drop (idx + 1) (df self)"

definition temp_analyzer :: "analyzer \<Rightarrow> nat \<Rightarrow> analyzer" where
  "temp_analyzer self idx = self\<lparr>df := historical_data self idx\<rparr>"

text \<open>The loop \<^verbatim>\<open>for idx in range(len(test_draws))\<close>, over the indices still to visit.\<close>

fun backtest_loop ::
  "analyzer \<Rightarrow> dataframe \<Rightarrow> string list \<Rightarrow> backtest_results \<Rightarrow> nat list
     \<Rightarrow> py_error + backtest_results" where
  "backtest_loop self test_draws strategies strategy_results [] = Inr strategy_results"
| "backtest_loop self test_draws strategies strategy_results (idx # idxs) =
     (if length (historical_data self idx) < 50
      then backtest_loop self test_draws strategies strategy_results idxs
      else
        (let actual_draw = snd (test_draws ! idx)
         in case simulate_strategies (temp_analyzer self idx) (numbers_in_draw actual_draw)
                   (Lucky_Ball actual_draw) strategy_results strategies of
              Inl e \<Rightarrow> Inl e
            | Inr strategy_results' \<Rightarrow>
                backtest_loop self test_draws strategies strategy_results' idxs))"

text \<open>
  The report loop after the simulation: it divides \<^verbatim>\<open>results['wins']\<close> by \<^verbatim>\<open>tickets\<close>
  for each strategy, so a strategy with no ticket raises \<^verbatim>\<open>ZeroDivisionError\<close>.
\<close>

fun print_results :: "backtest_results \<Rightarrow> string list \<Rightarrow> py_error + unit" where
  "print_results strategy_results [] = Inr ()"
| "print_results strategy_results (s # ss) =
     (case map_of strategy_results s of
        None \<Rightarrow> Inl KeyError
      | Some r \<Rightarrow>
          if tickets r = 0 then Inl ZeroDivisionError else print_results strategy_results ss)"

definition default_strategies :: "string list" where
  "default_strategies = [''balanced'', ''hot'', ''overdue'', ''recent_hot'']"

definition backtest_strategies ::
  "analyzer \<Rightarrow> int \<Rightarrow> string list option \<Rightarrow> py_error + backtest_results" where
  "backtest_strategies self lookback_draws strategies =
     (let strategies' = (case strategies of None \<Rightarrow> default_strategies | Some ss \<Rightarrow> ss);
          test_draws = head lookback_draws (df self)
      in case backtest_loop self test_draws strategies' (initial_results strategies')
                [0..<length test_draws] of
           Inl e \<Rightarrow> Inl e
         | Inr strategy_results \<Rightarrow>
             (case print_results strategy_results strategies' of
                Inl e \<Rightarrow> Inl e
              | Inr _ \<Rightarrow>
                  (case py_max (\<lambda>x. total_prize (snd x) - tickets (snd x) * 2) strategy_results of
                     Inl e \<Rightarrow> Inl e
                   | Inr best_strategy \<Rightarrow> Inr strategy_results)))"

section \<open>Other reporting paths\<close>

text \<open>
  The endpoint \<^verbatim>\<open>/api/recommendations/<strategy>\<close> of \<^verbatim>\<open>src/web_app.py\<close>, on the analyzer
  the application holds: the JSON body of the response, a success with the numbers, the
  lucky ball and the reasoning, or (status 400) a failure carrying the exception.
\<close>

datatype recommendation_response =
  Success_Response "int list" int string
| Failure_Response py_error

definition get_recommendations :: "analyzer \<Rightarrow> string \<Rightarrow> recommendation_response" where
  "get_recommendations ANALYZER strategy =
     (case generate_recommendations ANALYZER strategy of
        Inl e \<Rightarrow> Failure_Response e
      | Inr rec \<Rightarrow>
          (case lucky_ball rec of
             [] \<Rightarrow> Failure_Response IndexError
           | lb # _ \<Rightarrow> Success_Response (main_numbers rec) lb (reasoning rec)))"

text \<open>
  \<^verbatim>\<open>generate_jackpot_coverage\<close>. A computation here either returns, raises, or (the
  \<^verbatim>\<open>while\<close> loop of the second ticket) does not end, which is \<open>None\<close>.
\<close>

record ticket =
  ticket_numbers :: "int list"
  ticket_lucky_ball :: int
  ticket_strategy :: string
  ticket_reasoning :: string

text \<open>
  \<^verbatim>\<open>while tuple(sorted(nums)) in used_combinations:
      nums[4] = recent_main.most_common(15)[len(tickets) + 5][0]\<close>
\<close>

partial_function (option) vary_until_unused ::
  "int list list \<Rightarrow> int counter \<Rightarrow> nat \<Rightarrow> int list \<Rightarrow> (py_error + int list) option" where
  "vary_until_unused used_combinations recent_main n_tickets nums =
     (if sort nums \<in> set used_combinations
      then (if length (most_common 15 recent_main) \<le> n_tickets + 5 \<or> length nums \<le> 4
            then Some (Inl IndexError)
            else vary_until_unused used_combinations recent_main n_tickets
                   (nums[4 := fst (most_common 15 recent_main ! (n_tickets + 5))]))
      else Some (Inr nums))"

declare vary_until_unused.simps [code]

text \<open>One step of a computation after another, for the three outcomes.\<close>

definition and_then ::
  "(py_error + 'a) option \<Rightarrow> ('a \<Rightarrow> (py_error + 'b) option) \<Rightarrow> (py_error + 'b) option" where
  "and_then m f = (case m of None \<Rightarrow> None | Some (Inl e) \<Rightarrow> Some (Inl e) | Some (Inr x) \<Rightarrow> f x)"

text \<open>\<^verbatim>\<open>rec = self.generate_recommendations(strategy)\<close> followed by \<^verbatim>\<open>rec['lucky_ball'][0]\<close>.\<close>

definition pick_with_lucky :: "analyzer \<Rightarrow> string \<Rightarrow> (py_error + int list \<times> int) option" where
  "pick_with_lucky self strategy =
     (case generate_recommendations self strategy of
        Inl e \<Rightarrow> Some (Inl e)
      | Inr rec \<Rightarrow>
          (case lucky_ball rec of
             [] \<Rightarrow> Some (Inl IndexError)
           | lb # _ \<Rightarrow> Some (Inr (main_numbers rec, lb))))"

text \<open>Ticket 1: range spread.\<close>

definition coverage_ticket1 :: "analyzer \<Rightarrow> (py_error + ticket list \<times> int list list) option" where
  "coverage_ticket1 self =
     (case generate_recommendations self ''jackpot_spread'' of
        Inl e \<Rightarrow> Some (Inl e)
      | Inr rec1 \<Rightarrow>
          (case lucky_ball rec1 of
             [] \<Rightarrow> Some (Inl IndexError)
           | lb # _ \<Rightarrow>
               Some (Inr ([\<lparr>ticket_numbers = main_numbers rec1, ticket_lucky_ball = lb,
                             ticket_strategy = ''Range Spread'',
                             ticket_reasoning = ''Covers all number ranges (low/mid/high)''\<rparr>],
                          [sort (main_numbers rec1)]))))"

text \<open>Ticket 2: recent hot, varied until its combination is new; the lucky ball is read last.\<close>

definition coverage_ticket2 ::
  "analyzer \<Rightarrow> int counter \<Rightarrow> ticket list \<times> int list list
     \<Rightarrow> (py_error + ticket list \<times> int list list) option" where
  "coverage_ticket2 self recent_main st =
     (case generate_recommendations self ''recent_hot'' of
        Inl e \<Rightarrow> Some (Inl e)
      | Inr rec2 \<Rightarrow>
          and_then (vary_until_unused (snd st) recent_main (length (fst st)) (main_numbers rec2))
            (\<lambda>nums.
               case lucky_ball rec2 of
                 [] \<Rightarrow> Some (Inl IndexError)
               | lb # _ \<Rightarrow>
                   Some (Inr (fst st @
                          [\<lparr>ticket_numbers = sort nums, ticket_lucky_ball = lb,
                            ticket_strategy = ''Recent Hot'',
                            ticket_reasoning = ''Rides current momentum (proven +28% ROI)''\<rparr>],
                        snd st @ [sort nums]))))"

text \<open>Ticket 3: all-time hot, with the second most frequent lucky ball.\<close>

definition coverage_ticket3 ::
  "analyzer \<Rightarrow> int counter \<Rightarrow> ticket list \<times> int list list
     \<Rightarrow> (py_error + ticket list \<times> int list list) option" where
  "coverage_ticket3 self lucky_freq st =
     (case generate_recommendations self ''hot'' of
        Inl e \<Rightarrow> Some (Inl e)
      | Inr rec3 \<Rightarrow>
          (case most_common 2 lucky_freq of
             _ # kv # _ \<Rightarrow>
               Some (Inr (fst st @
                      [\<lparr>ticket_numbers = main_numbers rec3, ticket_lucky_ball = fst kv,
                        ticket_strategy = ''All-Time Hot'',
                        ticket_reasoning = ''Most frequently drawn numbers overall''\<rparr>],
                    snd st @ [sort (main_numbers rec3)]))
           | _ \<Rightarrow> Some (Inl IndexError)))"

text \<open>Ticket 4: balanced mix.\<close>

definition coverage_ticket4 ::
  "analyzer \<Rightarrow> ticket list \<times> int list list \<Rightarrow> (py_error + ticket list \<times> int list list) option" where
  "coverage_ticket4 self st =
     (case generate_recommendations self ''balanced'' of
        Inl e \<Rightarrow> Some (Inl e)
      | Inr rec4 \<Rightarrow>
          (case lucky_ball rec4 of
             [] \<Rightarrow> Some (Inl IndexError)
           | lb # _ \<Rightarrow>
               Some (Inr (fst st @
                      [\<lparr>ticket_numbers = main_numbers rec4, ticket_lucky_ball = lb,
                        ticket_strategy = ''Balanced Mix'',
                        ticket_reasoning = ''Hot + overdue + recent hybrid''\<rparr>],
                    snd st @ [sort (main_numbers rec4)]))))"

text \<open>
  Ticket 5: the three most frequent numbers of 30..48, filled up from the recent hot
  numbers.
\<close>

definition coverage_ticket5 ::
  "int counter \<Rightarrow> int counter \<Rightarrow> int counter \<Rightarrow> ticket list \<times> int list list
     \<Rightarrow> (py_error + ticket list \<times> int list list) option" where
  "coverage_ticket5 main_freq lucky_freq recent_main st =
     (let high_nums = filter (\<lambda>n. n \<in> fst ` set main_freq) [30..48];
          high_sorted = take 7 (sort_key (\<lambda>x. - counter_get main_freq x) high_nums);
          selected = foldl (\<lambda>sel num. if num \<notin> set sel \<and> length sel < 5 then sel @ [num] else sel)
                       (take 3 high_sorted) (map fst (most_common 20 recent_main))
      in case most_common 3 lucky_freq of
           [] \<Rightarrow> Some (Inl IndexError)
         | kv # _ \<Rightarrow>
             Some (Inr (fst st @
                    [\<lparr>ticket_numbers = sort (take 5 selected), ticket_lucky_ball = fst kv,
                      ticket_strategy = ''High Numbers'',
                      ticket_reasoning = ''Focus on 30-48 range with hot picks''\<rparr>],
                  snd st)))"

text \<open>\<^verbatim>\<open>int(x)\<close> on a float: truncation towards zero.\<close>

definition py_int :: "rat \<Rightarrow> int" where
  "py_int x = (if 0 \<le> x then \<lfloor>x\<rfloor> else \<lceil>x\<rceil>)"

definition generate_jackpot_coverage ::
  "analyzer \<Rightarrow> int \<Rightarrow> rat \<Rightarrow> (py_error + ticket list) option" where
  "generate_jackpot_coverage self num_tickets budget =
     (let max_tickets = py_int (float64 (budget / 2));
          num_tickets' = min num_tickets max_tickets;
          main_freq = fst (frequency_analysis self); lucky_freq = snd (frequency_analysis self);
          recent_main = fst (recent_analysis self 50)
      in and_then (coverage_ticket1 self) (\<lambda>st1.
         and_then (if 2 \<le> num_tickets' then coverage_ticket2 self recent_main st1
                   else Some (Inr st1)) (\<lambda>st2.
         and_then (if 3 \<le> num_tickets' then coverage_ticket3 self lucky_freq st2
                   else Some (Inr st2)) (\<lambda>st3.
         and_then (if 4 \<le> num_tickets' then coverage_ticket4 self st3
                   else Some (Inr st3)) (\<lambda>st4.
         and_then (if 5 \<le> num_tickets' then coverage_ticket5 main_freq lucky_freq recent_main st4
                   else Some (Inr st4)) (\<lambda>st5.
         Some (Inr (fst st5))))))))"

section \<open>Notions used in the statements\<close>

text \<open>
  A well-formed draw (the spec's DrawRecord invariant, which the test suite checks on the
  data): five pairwise distinct main numbers in 1..48 and a lucky ball in 1..18.
\<close>

definition well_formed :: "draw \<Rightarrow> bool" where
  "well_formed row =
     (distinct (numbers_in_draw row)
      \<and> list_all (\<lambda>n. 1 \<le> n \<and> n \<le> 48) (numbers_in_draw row)
      \<and> 1 \<le> Lucky_Ball row \<and> Lucky_Ball row \<le> 18)"

text \<open>
  A pick that may be short: at most five pairwise distinct main numbers in 1..48 and
  exactly one lucky ball in 1..18.
\<close>

definition pick_ok :: "recommendation \<Rightarrow> bool" where
  "pick_ok rec =
     (length (main_numbers rec) \<le> 5 \<and> distinct (main_numbers rec)
      \<and> list_all (\<lambda>n. 1 \<le> n \<and> n \<le> 48) (main_numbers rec)
      \<and> (case lucky_ball rec of [lb] \<Rightarrow> 1 \<le> lb \<and> lb \<le> 18 | _ \<Rightarrow> False))"

text \<open>The history floor of the backtest: index \<open>idx\<close> is simulated, not skipped.\<close>

definition enough_history :: "analyzer \<Rightarrow> nat \<Rightarrow> bool" where
  "enough_history self idx = (50 \<le> length (historical_data self idx))"

text \<open>\<^verbatim>\<open>strategy_results[s]['tickets']\<close>, 0 for a name without an entry.\<close>

definition tickets_of :: "backtest_results \<Rightarrow> string \<Rightarrow> int" where
  "tickets_of res s = (case map_of res s of None \<Rightarrow> 0 | Some r \<Rightarrow> tickets r)"

text \<open>
  The current gap in the spec's words, for comparison with what \<^verbatim>\<open>gap_analysis\<close>
  computes: the number of draws since the number's most recent appearance in a history
  ordered most recent first, and the length of the history for a number never seen.
\<close>

definition draws_since_last_seen :: "draw list \<Rightarrow> int \<Rightarrow> int" where
  "draws_since_last_seen rows n =
     int (length (takeWhile (\<lambda>row. n \<notin> set (numbers_in_draw row)) rows))"

section \<open>Example histories\<close>

text \<open>
  The three-draw data set of the test fixture (\<^verbatim>\<open>src/tests/test_analyzer.py\<close>), most
  recent first. Timestamps are written as \<open>yyyymmdd\<close> numerals.
\<close>

definition test_data :: "draw list" where
  "test_data =
     [\<lparr>Date = 20260121, Number1 = 3, Number2 = 10, Number3 = 22, Number4 = 32, Number5 = 38,
       Lucky_Ball = 11\<rparr>,
      \<lparr>Date = 20260120, Number1 = 6, Number2 = 9, Number3 = 28, Number4 = 41, Number5 = 45,
       Lucky_Ball = 8\<rparr>,
      \<lparr>Date = 20260119, Number1 = 5, Number2 = 17, Number3 = 22, Number4 = 42, Number5 = 48,
       Lucky_Ball = 16\<rparr>]"

text \<open>Three draws that all show the number 1.\<close>

definition repeat_data :: "draw list" where
  "repeat_data =
     [\<lparr>Date = 20260103, Number1 = 1, Number2 = 2, Number3 = 3, Number4 = 4, Number5 = 5,
       Lucky_Ball = 1\<rparr>,
      \<lparr>Date = 20260102, Number1 = 1, Number2 = 6, Number3 = 7, Number4 = 8, Number5 = 9,
       Lucky_Ball = 2\<rparr>,
      \<lparr>Date = 20260101, Number1 = 1, Number2 = 10, Number3 = 11, Number4 = 12, Number5 = 13,
       Lucky_Ball = 3\<rparr>]"

text \<open>
  Fifty older draws: each shows 45, 46, 47, 48 and one more number, which is 1 in the
  draws at positions 0 and 2, 2 at position 1, the position itself at 3..44, and 3..7 at
  45..49. Then a target draw that shows 1, and one draw more recent than the target.
\<close>

definition fifth_number :: "nat \<Rightarrow> int" where
  "fifth_number j =
     (if j = 0 then 1 else if j = 1 then 2 else if j = 2 then 1
      else if j < 45 then int j else int j - 42)"

definition older_draws :: "draw list" where
  "older_draws =
     map (\<lambda>j. \<lparr>Date = 1000 - int j, Number1 = fifth_number j, Number2 = 45, Number3 = 46,
               Number4 = 47, Number5 = 48, Lucky_Ball = 7\<rparr>) [0..<50]"

definition target_draw :: draw where
  "target_draw = \<lparr>Date = 1001, Number1 = 1, Number2 = 10, Number3 = 20, Number4 = 30,
                  Number5 = 40, Lucky_Ball = 7\<rparr>"

definition newer_draw :: draw where
  "newer_draw = \<lparr>Date = 1002, Number1 = 9, Number2 = 19, Number3 = 29, Number4 = 39,
                 Number5 = 44, Lucky_Ball = 3\<rparr>"

section \<open>Prize evaluator: properties\<close>

text \<open>
  Claim C3. Every combination of a match count in 0..5 and a lucky-ball match has a defined
  prize, as the fixed table gives it: 4+LB 5000, 4 200, 3+LB 150, 3 20, 2+LB 25, 2 3,
  1+LB 6, 0+LB 4, otherwise 0, with 5+LB and 5 alone carrying the amount 0 and a
  description in live checking. The backtest cascade gives 1,000,000 to 5+LB and 25,000 to
  5 alone and agrees with the live amounts everywhere else.
\<close>

theorem prize_table:
  "ticket_prize 5 True = (0, ''JACKPOT! $1,000/Day for Life'')
   \<and> ticket_prize 5 False = (0, ''2nd Prize! $25,000/Year for Life'')
   \<and> ticket_prize 4 True = (5000, ''$5,000'')
   \<and> ticket_prize 4 False = (200, ''$200'')
   \<and> ticket_prize 3 True = (150, ''$150'')
   \<and> ticket_prize 3 False = (20, ''$20'')
   \<and> ticket_prize 2 True = (25, ''$25'')
   \<and> ticket_prize 2 False = (3, ''$3'')
   \<and> ticket_prize 1 True = (6, ''$6'')
   \<and> ticket_prize 1 False = (0, ''No win'')
   \<and> ticket_prize 0 True = (4, ''$4'')
   \<and> ticket_prize 0 False = (0, ''No win'')
   \<and> backtest_prize 5 True = 1000000
   \<and> backtest_prize 5 False = 25000
   \<and> (\<forall>m lm. backtest_prize m lm =
          (if m = 5 then (if lm then 1000000 else 25000) else fst (ticket_prize m lm)))"
  by (simp add: ticket_prize_def backtest_prize_def)

text \<open>
  Claim C10. \<^verbatim>\<open>check_ticket\<close> with a date that no draw of the history carries returns
  \<open>(None, "Drawing date not found")\<close>; with a date that some draw carries it returns
  \<open>(result, None)\<close>; the analyzer, and so the history, is the same after the call.
\<close>

theorem check_ticket_lookup:
  "snd (check_ticket self numbers lucky d) = self
   \<and> ((\<forall>r \<in> set (df self). Date (snd r) \<noteq> d) \<longrightarrow>
        fst (check_ticket self numbers lucky d) = (None, Some ''Drawing date not found''))
   \<and> ((\<exists>r \<in> set (df self). Date (snd r) = d) \<longrightarrow>
        (\<exists>res. fst (check_ticket self numbers lucky d) = (Some res, None)))"
proof (cases "filter (\<lambda>r. Date (snd r) = d) (df self)")
  case Nil
  then have "\<forall>r \<in> set (df self). Date (snd r) \<noteq> d"
    by (simp add: filter_empty_conv)
  with Nil show ?thesis by (simp add: check_ticket_def)
next
  case (Cons r rs)
  then have "r \<in> set (filter (\<lambda>r. Date (snd r) = d) (df self))" by simp
  then have "\<exists>r \<in> set (df self). Date (snd r) = d" by auto
  with Cons show ?thesis by (auto simp: check_ticket_def Let_def)
qed

theorem check_ticket_lookup_witness:
  "\<not> (\<exists>r \<in> set (df (LuckyForLifeAnalyzer test_data)). Date (snd r) = 20991231)
   \<and> fst (check_ticket (LuckyForLifeAnalyzer test_data) [1, 2, 3, 4, 5] 1 20991231)
       = (None, Some ''Drawing date not found'')
   \<and> (\<exists>r \<in> set (df (LuckyForLifeAnalyzer test_data)). Date (snd r) = 20260120)
   \<and> (\<exists>res. fst (check_ticket (LuckyForLifeAnalyzer test_data) [1, 2, 3, 4, 5] 1 20260120)
               = (Some res, None))
   \<and> snd (check_ticket (LuckyForLifeAnalyzer test_data) [1, 2, 3, 4, 5] 1 20260120)
       = LuckyForLifeAnalyzer test_data"
proof -
  have a: "\<forall>r \<in> set (df (LuckyForLifeAnalyzer test_data)). Date (snd r) \<noteq> 20991231"
    by (simp add: LuckyForLifeAnalyzer_def reset_index_def test_data_def upt_conv_Cons)
  have b: "\<exists>r \<in> set (df (LuckyForLifeAnalyzer test_data)). Date (snd r) = 20260120"
    by (simp add: LuckyForLifeAnalyzer_def reset_index_def test_data_def upt_conv_Cons)
  from a b check_ticket_lookup [of "LuckyForLifeAnalyzer test_data" "[1, 2, 3, 4, 5]" 1 20991231]
    check_ticket_lookup [of "LuckyForLifeAnalyzer test_data" "[1, 2, 3, 4, 5]" 1 20260120]
  show ?thesis by blast
qed

text \<open>
  Claim C6. A ticket of five distinct numbers \<open>X\<close> and lucky ball \<open>lb\<close>, checked against a
  drawing whose numbers are those of \<open>X\<close> and whose lucky ball is \<open>lb\<close>, has five matches,
  a lucky match and the jackpot description. The drawing is the first row of the history
  with the requested date.
\<close>

theorem identical_ticket_jackpot:
  assumes "filter (\<lambda>r. Date (snd r) = d) (df self) = r # rest"
    and "distinct X" and "length X = 5"
    and "set (numbers_in_draw (snd r)) = set X"
    and "Lucky_Ball (snd r) = lb"
  shows "\<exists>res. fst (check_ticket self X lb d) = (Some res, None)
           \<and> main_matches res = 5 \<and> lucky_match res \<and> prize res = 0
           \<and> prize_description res = ''JACKPOT! $1,000/Day for Life''"
proof -
  have "card (set X \<inter> set (numbers_in_draw (snd r))) = 5"
    using assms by (simp add: distinct_card)
  then show ?thesis
    using assms by (simp add: check_ticket_def Let_def count_matches_def ticket_prize_def)
qed

theorem identical_ticket_jackpot_witness:
  "\<exists>res. fst (check_ticket (LuckyForLifeAnalyzer test_data) [3, 10, 22, 32, 38] 11 20260121)
            = (Some res, None)
         \<and> main_matches res = 5 \<and> lucky_match res \<and> prize res = 0
         \<and> prize_description res = ''JACKPOT! $1,000/Day for Life''"
proof (rule identical_ticket_jackpot)
  show "filter (\<lambda>r. Date (snd r) = 20260121) (df (LuckyForLifeAnalyzer test_data))
          = (0, hd test_data) # []"
    by (simp add: LuckyForLifeAnalyzer_def reset_index_def test_data_def upt_conv_Cons)
  show "distinct [3, 10, 22, 32, 38 :: int]" by simp
  show "length [3, 10, 22, 32, 38 :: int] = 5" by simp
  show "set (numbers_in_draw (snd (0 :: int, hd test_data))) = set [3, 10, 22, 32, 38]"
    by (simp add: numbers_in_draw_def test_data_def)
  show "Lucky_Ball (snd (0 :: int, hd test_data)) = 11" by (simp add: test_data_def)
qed

section \<open>Frequency engine: properties\<close>

lemma sum_counter_incr:
  "sum_list (map snd (counter_incr k c)) = sum_list (map snd c) + 1"
  unfolding counter_incr_def counter_get_def
  by (induction c) auto

lemma sum_incr_numbers:
  "sum_list (map snd (foldl (\<lambda>m n. counter_incr n m) c ns))
     = sum_list (map snd c) + int (length ns)"
  by (induction ns arbitrary: c) (simp_all add: sum_counter_incr)

lemma sum_count_rows:
  "sum_list (map snd (fst (foldl count_row acc rows)))
     = sum_list (map snd (fst acc)) + 5 * int (length rows)
   \<and> sum_list (map snd (snd (foldl count_row acc rows)))
     = sum_list (map snd (snd acc)) + int (length rows)"
  by (induction rows arbitrary: acc)
     (simp_all add: count_row_def sum_incr_numbers sum_counter_incr numbers_in_draw_def)

text \<open>
  Claim C8. The main-number counts of \<^verbatim>\<open>frequency_analysis\<close> sum to five times the number
  of rows and its lucky-ball counts to the number of rows; the same holds for
  \<^verbatim>\<open>recent_analysis\<close> over its window \<^verbatim>\<open>df.head(last_n_draws)\<close>.
\<close>

theorem frequency_counts_sum:
  "sum_list (map snd (fst (frequency_analysis self))) = 5 * int (length (df self))
   \<and> sum_list (map snd (snd (frequency_analysis self))) = int (length (df self))
   \<and> sum_list (map snd (fst (recent_analysis self n))) = 5 * int (length (head n (df self)))
   \<and> sum_list (map snd (snd (recent_analysis self n))) = int (length (head n (df self)))"
  by (simp add: frequency_analysis_def recent_analysis_def sum_count_rows)

section \<open>Empty histories\<close>

lemma map_of_foldl_update:
  "map_of (foldl (\<lambda>cg num. AList.update num (g num) cg) acc ns) n =
     (if n \<in> set ns then Some (g n) else map_of acc n)"
  by (induction ns arbitrary: acc) (auto simp: update_conv')

lemma foldl_keep: "foldl (\<lambda>acc x. acc) a xs = a"
  by (induction xs) simp_all

text \<open>
  The claim C7 at a concrete input: on an analyzer with no draw, the frequency and gap
  computations return, with empty tables; nothing is raised.
\<close>

theorem empty_history_returns_tables:
  "frequency_analysis (LuckyForLifeAnalyzer []) = ([], [])
   \<and> recent_analysis (LuckyForLifeAnalyzer []) 50 = ([], [])
   \<and> fst (gap_analysis (LuckyForLifeAnalyzer [])) = []
   \<and> get_overdue_numbers (LuckyForLifeAnalyzer []) (3 / 2) = []"
  by (simp add: frequency_analysis_def recent_analysis_def gap_analysis_def
      get_overdue_numbers_def LuckyForLifeAnalyzer_def reset_index_def head_def foldl_keep)

text \<open>
  Claim C7, as the code has it. The source has no \<^verbatim>\<open>raise\<close> in \<^verbatim>\<open>frequency_analysis\<close>,
  \<^verbatim>\<open>recent_analysis\<close>, \<^verbatim>\<open>gap_analysis\<close> or \<^verbatim>\<open>get_overdue_numbers\<close>, and no empty-history
  error anywhere. Over a frame with no rows they return normally: empty frequency
  tables, an empty average-gap table, a current-gap table that gives every number of
  the range the gap 0 (the length of the frame), and no overdue number.
\<close>

theorem empty_history_tables:
  "frequency_analysis (self\<lparr>df := []\<rparr>) = ([], [])
   \<and> recent_analysis (self\<lparr>df := []\<rparr>) n = ([], [])
   \<and> fst (gap_analysis (self\<lparr>df := []\<rparr>)) = []
   \<and> map_of (snd (gap_analysis (self\<lparr>df := []\<rparr>))) k =
       (if k \<in> set (main_numbers_range self) then Some 0 else None)
   \<and> get_overdue_numbers (self\<lparr>df := []\<rparr>) t = []"
proof -
  have g: "fst (gap_analysis (self\<lparr>df := []\<rparr>)) = []"
    by (simp add: gap_analysis_def)
  have c: "map_of (snd (gap_analysis (self\<lparr>df := []\<rparr>))) k =
       (if k \<in> set (main_numbers_range self) then Some 0 else None)"
    by (simp add: gap_analysis_def map_of_foldl_update)
  have o: "get_overdue_numbers (self\<lparr>df := []\<rparr>) t = []"
    by (simp add: get_overdue_numbers_def g foldl_keep)
  show ?thesis
    by (simp add: frequency_analysis_def recent_analysis_def head_def g c o)
qed

section \<open>Strategy engine: properties\<close>

lemma multiple_sets_loop_sorted:
  "multiple_sets_loop self i ss = Inr sets \<Longrightarrow>
     \<forall>s \<in> set sets. sorted (set_numbers s)
        \<and> (\<exists>rec. generate_recommendations self (set_strategy s) = Inr rec
               \<and> set_numbers s = sort (main_numbers rec))"
proof (induction ss arbitrary: i sets)
  case Nil
  then show ?case by simp
next
  case (Cons s ss)
  then show ?case
    by (auto split: sum.splits list.splits)
qed

text \<open>
  One reporting path sorts: every set that \<^verbatim>\<open>generate_multiple_sets\<close> returns carries its
  main numbers sorted ascending, whatever the strategy. They are the sorted main numbers
  of the recommendation \<^verbatim>\<open>generate_recommendations\<close> gives for the set's strategy.
\<close>

lemma reported_sets_sorted:
  assumes "generate_multiple_sets self num_sets strategies = Inr sets"
  shows "\<forall>s \<in> set sets. sorted (set_numbers s)
        \<and> (\<exists>rec. generate_recommendations self (set_strategy s) = Inr rec
               \<and> set_numbers s = sort (main_numbers rec))"
  using assms unfolding generate_multiple_sets_def Let_def
  by (rule multiple_sets_loop_sorted)

text \<open>
  Claim C9. The claim is that the main numbers of every reported recommendation are sorted
  ascending. On the test fixture the \<^verbatim>\<open>hot\<close> strategy picks 22, 3, 10, 32, 38, in
  that order, and the recommendations endpoint of the web application reports the list
  as it is, while \<^verbatim>\<open>generate_multiple_sets\<close> reports the same pick sorted.
\<close>

theorem hot_pick_reported_unsorted:
  "map_sum id main_numbers
     (generate_recommendations (LuckyForLifeAnalyzer test_data) ''hot'')
     = Inr [22, 3, 10, 32, 38]
   \<and> \<not> sorted [22, 3, 10, 32, 38 :: int]
   \<and> get_recommendations (LuckyForLifeAnalyzer test_data) ''hot''
       = Success_Response [22, 3, 10, 32, 38] 11 ''Hot numbers: Most frequently drawn overall''
   \<and> map_sum id (map set_numbers)
       (generate_multiple_sets (LuckyForLifeAnalyzer test_data) 1 (Some [''hot'']))
       = Inr [[3, 10, 22, 32, 38]]"
  by code_simp

text \<open>
  \<^verbatim>\<open>generate_jackpot_coverage\<close> on the same fixture, five tickets for a budget of 10:
  it sorts the numbers of the second and fifth ticket and reports the \<^verbatim>\<open>hot\<close> and
  \<^verbatim>\<open>balanced\<close> picks of the third and fourth ticket as the strategies returned them.
\<close>

lemma jackpot_coverage_reports_unsorted:
  "map_option (map_sum id (map ticket_numbers))
     (generate_jackpot_coverage (LuckyForLifeAnalyzer test_data) 5 10)
     = Some (Inr [[3, 10, 22, 28, 38], [3, 10, 22, 32, 38], [22, 3, 10, 32, 38], [22, 3, 10],
                  [3, 22, 32, 38, 41]])"
  by code_simp

lemma keys_counter_incr: "fst ` set (counter_incr k c) = insert k (fst ` set c)"
  by (simp add: counter_incr_def dom_update)

lemma distinct_counter_incr:
  "distinct (map fst c) \<Longrightarrow> distinct (map fst (counter_incr k c))"
  by (simp add: counter_incr_def distinct_update)

lemma incr_numbers_keys:
  "fst ` set (foldl (\<lambda>m n. counter_incr n m) c ns) = fst ` set c \<union> set ns"
  by (induction ns arbitrary: c) (auto simp: keys_counter_incr)

lemma incr_numbers_distinct:
  "distinct (map fst c) \<Longrightarrow> distinct (map fst (foldl (\<lambda>m n. counter_incr n m) c ns))"
  by (induction ns arbitrary: c) (simp_all add: distinct_counter_incr)

lemma count_rows_keys:
  "fst ` set (fst (foldl count_row acc rows))
     = fst ` set (fst acc) \<union> (\<Union>r \<in> set rows. set (numbers_in_draw (snd r)))
   \<and> fst ` set (snd (foldl count_row acc rows))
     = fst ` set (snd acc) \<union> (\<lambda>r. Lucky_Ball (snd r)) ` set rows"
  by (induction rows arbitrary: acc)
     (auto simp: count_row_def incr_numbers_keys keys_counter_incr)

lemma count_rows_distinct:
  "distinct (map fst (fst acc)) \<Longrightarrow> distinct (map fst (snd acc)) \<Longrightarrow>
   distinct (map fst (fst (foldl count_row acc rows)))
   \<and> distinct (map fst (snd (foldl count_row acc rows)))"
  by (induction rows arbitrary: acc)
     (simp_all add: count_row_def incr_numbers_distinct distinct_counter_incr)

lemma distinct_keys_sort_key:
  "distinct (map fst (sort_key f c)) = distinct (map fst c)"
  by (simp add: distinct_map)

lemma distinct_keys_take:
  "distinct (map fst c) \<Longrightarrow> distinct (map fst (take n c))"
  by (simp add: take_map [symmetric] distinct_take)

lemma length_ge_card_keys: "card (fst ` set c) \<le> length c"
  by (metis card_image_le card_length le_trans List.finite_set)

text \<open>The frequency tables of a non-empty frame of well-formed rows.\<close>

lemma freq_tables:
  assumes ne: "rows \<noteq> []" and wf: "\<forall>r \<in> set rows. well_formed (snd r)"
  defines "mf \<equiv> fst (foldl count_row ([], []) rows)"
    and "lf \<equiv> snd (foldl count_row ([], []) rows)"
  shows "distinct (map fst mf)" and "distinct (map fst lf)"
    and "5 \<le> length mf" and "lf \<noteq> []"
    and "\<forall>n \<in> fst ` set mf. 1 \<le> n \<and> n \<le> 48"
    and "\<forall>n \<in> fst ` set lf. 1 \<le> n \<and> n \<le> 18"
proof -
  show "distinct (map fst mf)" "distinct (map fst lf)"
    using count_rows_distinct [of "([], [])" rows] by (simp_all add: mf_def lf_def)
  from ne obtain r where r: "r \<in> set rows" by (cases rows) auto
  have k: "fst ` set mf = (\<Union>r \<in> set rows. set (numbers_in_draw (snd r)))"
    and l: "fst ` set lf = (\<lambda>r. Lucky_Ball (snd r)) ` set rows"
    using count_rows_keys [of "([], [])" rows] by (simp_all add: mf_def lf_def)
  from r wf have "distinct (numbers_in_draw (snd r))" by (simp add: well_formed_def)
  then have "card (set (numbers_in_draw (snd r))) = 5"
    by (simp add: distinct_card numbers_in_draw_def)
  moreover have "set (numbers_in_draw (snd r)) \<subseteq> fst ` set mf" using r k by auto
  ultimately have "5 \<le> card (fst ` set mf)"
    by (metis card_mono finite_imageI List.finite_set)
  with length_ge_card_keys [of mf] show "5 \<le> length mf" by simp
  from r l show "lf \<noteq> []" by auto
  show "\<forall>n \<in> fst ` set mf. 1 \<le> n \<and> n \<le> 48"
    using wf by (auto simp: k well_formed_def list_all_iff)
  show "\<forall>n \<in> fst ` set lf. 1 \<le> n \<and> n \<le> 18"
    using wf by (auto simp: l well_formed_def)
qed

lemma top_keys:
  assumes "distinct (map fst c)" and "\<forall>n \<in> fst ` set c. P n"
  shows "distinct (take k (map fst (take m (sort_key f c))))"
    and "list_all P (take k (map fst (take m (sort_key f c))))"
    and "length (take k (map fst (take m (sort_key f c)))) = min k (min m (length c))"
proof -
  have "distinct (map fst (take m (sort_key f c)))"
    using assms(1) by (simp add: distinct_keys_take distinct_keys_sort_key)
  then show "distinct (take k (map fst (take m (sort_key f c))))" by simp
  have "set (take k (map fst (take m (sort_key f c)))) \<subseteq> fst ` set c"
    using set_take_subset [of k "map fst (take m (sort_key f c))"]
      set_take_subset [of m "sort_key f c"] by auto
  with assms(2) show "list_all P (take k (map fst (take m (sort_key f c))))"
    by (auto simp: list_all_iff)
  show "length (take k (map fst (take m (sort_key f c)))) = min k (min m (length c))"
    by simp
qed

lemma top_lucky_ok:
  assumes "lf \<noteq> []" and "\<forall>n \<in> fst ` set lf. 1 \<le> n \<and> n \<le> 18"
  shows "\<exists>lb. top_lucky lf = Inr [lb] \<and> 1 \<le> lb \<and> lb \<le> 18"
proof -
  let ?s = "sort_key (\<lambda>kv. - snd kv) lf"
  from assms(1) have "?s \<noteq> []" by (metis length_sort length_0_conv)
  then obtain x xs where x: "?s = x # xs" by (cases ?s) auto
  then have "x \<in> set lf" by (metis list.set_intros(1) set_sort)
  with assms(2) x show ?thesis by (auto simp: top_lucky_def most_common_def)
qed

lemma recommend_hot_ok:
  assumes "distinct (map fst mf)" and "5 \<le> length mf"
    and "\<forall>n \<in> fst ` set mf. 1 \<le> n \<and> n \<le> 48"
    and "lf \<noteq> []" and "\<forall>n \<in> fst ` set lf. 1 \<le> n \<and> n \<le> 18"
  shows "\<exists>rec. recommend_hot mf lf = Inr rec \<and> length (main_numbers rec) = 5 \<and> pick_ok rec"
proof -
  from top_lucky_ok [OF assms(4,5)] obtain lb where
    lb: "top_lucky lf = Inr [lb]" "1 \<le> lb" "lb \<le> 18" by blast
  from top_keys [OF assms(1,3), of 5 10 "\<lambda>kv. - snd kv"] assms(2) lb show ?thesis
    by (simp add: recommend_hot_def most_common_def pick_ok_def)
qed

lemma recommend_recent_hot_ok:
  assumes "distinct (map fst mf)" and "5 \<le> length mf"
    and "\<forall>n \<in> fst ` set mf. 1 \<le> n \<and> n \<le> 48"
    and "lf \<noteq> []" and "\<forall>n \<in> fst ` set lf. 1 \<le> n \<and> n \<le> 18"
  shows "\<exists>rec. recommend_recent_hot mf lf = Inr rec \<and> length (main_numbers rec) = 5
           \<and> pick_ok rec"
proof -
  from top_lucky_ok [OF assms(4,5)] obtain lb where
    lb: "top_lucky lf = Inr [lb]" "1 \<le> lb" "lb \<le> 18" by blast
  from top_keys [OF assms(1,3), of 5 10 "\<lambda>kv. - snd kv"] assms(2) lb show ?thesis
    by (simp add: recommend_recent_hot_def most_common_def pick_ok_def)
qed

lemma recommend_cold_ok:
  assumes "distinct (map fst mf)" and "5 \<le> length mf"
    and "\<forall>n \<in> fst ` set mf. 1 \<le> n \<and> n \<le> 48"
    and "lf \<noteq> []" and "\<forall>n \<in> fst ` set lf. 1 \<le> n \<and> n \<le> 18"
  shows "\<exists>rec. recommend_cold mf lf = Inr rec \<and> length (main_numbers rec) = 5 \<and> pick_ok rec"
proof -
  let ?s = "sort_key snd lf"
  from assms(4) have "?s \<noteq> []" by (metis length_sort length_0_conv)
  then obtain x xs where x: "?s = x # xs" by (cases ?s) auto
  then have "x \<in> set lf" by (metis list.set_intros(1) set_sort)
  with assms(5) have r: "1 \<le> fst x \<and> fst x \<le> 18" by auto
  from top_keys [OF assms(1,3), of 5 10 snd] assms(2) x r show ?thesis
    by (simp add: recommend_cold_def sorted_by_count_def pick_ok_def)
qed

lemma foldl_update_or_keep:
  assumes "\<And>acc x. x \<in> set xs \<Longrightarrow>
             step acc x = acc \<or> (\<exists>v. step acc x = AList.update (k x) v acc)"
    and "distinct (map fst acc)"
  shows "distinct (map fst (foldl step acc xs))
         \<and> fst ` set (foldl step acc xs) \<subseteq> fst ` set acc \<union> k ` set xs"
  using assms
proof (induction xs arbitrary: acc)
  case Nil
  then show ?case by simp
next
  case (Cons x xs)
  have st: "step acc x = acc \<or> (\<exists>v. step acc x = AList.update (k x) v acc)"
    using Cons.prems(1) [of x acc] by simp
  then have d: "distinct (map fst (step acc x))"
    using Cons.prems(2) by (auto simp: distinct_update)
  have s: "fst ` set (step acc x) \<subseteq> fst ` set acc \<union> {k x}"
  proof (rule disjE [OF st])
    assume "step acc x = acc"
    then show ?thesis by auto
  next
    assume "\<exists>v. step acc x = AList.update (k x) v acc"
    then obtain v where "step acc x = AList.update (k x) v acc" ..
    then show ?thesis using dom_update [of "k x" v acc] by auto
  qed
  have ih: "distinct (map fst (foldl step (step acc x) xs))
         \<and> fst ` set (foldl step (step acc x) xs) \<subseteq> fst ` set (step acc x) \<union> k ` set xs"
    using Cons.prems(1) d by (intro Cons.IH) auto
  have e: "k ` set (x # xs) = {k x} \<union> k ` set xs" by simp
  from ih s have "fst ` set (foldl step (step acc x) xs) \<subseteq> fst ` set acc \<union> k ` set (x # xs)"
    unfolding e by blast
  with ih show ?case by simp
qed

lemma overdue_keys:
  "distinct (map fst (get_overdue_numbers self t))
   \<and> fst ` set (get_overdue_numbers self t) \<subseteq> set (main_numbers_range self)"
proof -
  have "distinct (map fst (get_overdue_numbers self t))
   \<and> fst ` set (get_overdue_numbers self t)
       \<subseteq> fst ` set ([] :: (int \<times> overdue_entry) list) \<union> id ` set (main_numbers_range self)"
    unfolding get_overdue_numbers_def Let_def
    by (rule foldl_update_or_keep) (auto split: option.splits)
  then show ?thesis by simp
qed

lemma py_max_fold_mem: "foldl (\<lambda>m y. if f m < f y then y else m) x xs \<in> set (x # xs)"
  by (induction xs arbitrary: x) auto

lemma py_max_mem: "py_max f xs = Inr x \<Longrightarrow> x \<in> set xs"
  using py_max_fold_mem [of f] by (auto simp: py_max_def split: list.splits)

lemma overdue_lucky_ball_mem:
  assumes "get_overdue_lucky_ball self = Inr lb"
  shows "lb \<in> (\<lambda>r. Lucky_Ball (snd r)) ` set (df self)"
proof -
  let ?step = "\<lambda>ls r. let lb = Lucky_Ball (snd r)
                       in if lb \<notin> fst ` set ls then AList.update lb (fst r) ls else ls"
  let ?ls = "foldl ?step [] (df self)"
  have "distinct (map fst ?ls)
        \<and> fst ` set ?ls \<subseteq> fst ` set ([] :: (int \<times> int) list)
                             \<union> (\<lambda>r. Lucky_Ball (snd r)) ` set (df self)"
    by (rule foldl_update_or_keep) (auto simp: Let_def)
  then have k: "fst ` set ?ls \<subseteq> (\<lambda>r. Lucky_Ball (snd r)) ` set (df self)" by simp
  from assms obtain x where "py_max (\<lambda>x. \<bar>snd x\<bar>) ?ls = Inr x" and "lb = fst x"
    by (auto simp: get_overdue_lucky_ball_def split: sum.splits)
  then have "lb \<in> fst ` set ?ls" using py_max_mem by force
  with k show ?thesis by blast
qed

lemma keys_take_sort:
  assumes "distinct (map fst c)" and "\<forall>n \<in> fst ` set c. P n"
  shows "distinct (map fst (take m (sort_key f c)))"
    and "list_all P (map fst (take m (sort_key f c)))"
proof -
  show "distinct (map fst (take m (sort_key f c)))"
    using assms(1) by (simp add: distinct_keys_take distinct_keys_sort_key)
  have "set (map fst (take m (sort_key f c))) \<subseteq> fst ` set c"
    using set_take_subset [of m "sort_key f c"] by auto
  with assms(2) show "list_all P (map fst (take m (sort_key f c)))"
    unfolding list_all_iff by blast
qed

lemma recommend_overdue_ok:
  assumes "distinct (map fst ov)" and "\<forall>n \<in> fst ` set ov. 1 \<le> n \<and> n \<le> 48"
    and "\<forall>r \<in> set (df self). 1 \<le> Lucky_Ball (snd r) \<and> Lucky_Ball (snd r) \<le> 18"
    and "recommend_overdue self ov = Inr rec"
  shows "pick_ok rec"
proof -
  from assms(4) obtain lb where lb: "get_overdue_lucky_ball self = Inr lb"
    and rec: "rec = \<lparr>main_numbers = map fst (take 5 (sort_key neg_ratio ov)), lucky_ball = [lb],
                      reasoning = reasoning rec\<rparr>"
    by (auto simp: recommend_overdue_def overdue_sorted_def split: sum.splits)
  from overdue_lucky_ball_mem [OF lb] assms(3) have "1 \<le> lb \<and> lb \<le> 18" by auto
  with keys_take_sort [OF assms(1,2), of 5 neg_ratio] show ?thesis
    by (subst rec) (simp add: pick_ok_def)
qed

lemma extend_fresh_ok:
  assumes "distinct selected" and "distinct nums"
  shows "distinct (extend_fresh selected nums k)"
    and "set (extend_fresh selected nums k) \<subseteq> set selected \<union> set nums"
    and "length (extend_fresh selected nums k) \<le> length selected + k"
proof -
  have "set (take k (filter (\<lambda>n. n \<notin> set selected) nums)) \<subseteq> set nums - set selected"
    using set_take_subset [of k "filter (\<lambda>n. n \<notin> set selected) nums"] by auto
  then show "distinct (extend_fresh selected nums k)"
    and "set (extend_fresh selected nums k) \<subseteq> set selected \<union> set nums"
    using assms by (auto simp: extend_fresh_def)
  show "length (extend_fresh selected nums k) \<le> length selected + k"
    by (simp add: extend_fresh_def)
qed

lemma recommend_balanced_ok:
  assumes mf: "distinct (map fst mf)" "\<forall>n \<in> fst ` set mf. 1 \<le> n \<and> n \<le> 48"
    and rm: "distinct (map fst rm)" "\<forall>n \<in> fst ` set rm. 1 \<le> n \<and> n \<le> 48"
    and ov: "distinct (map fst ov)" "\<forall>n \<in> fst ` set ov. 1 \<le> n \<and> n \<le> 48"
    and lf: "\<forall>n \<in> fst ` set lf. 1 \<le> n \<and> n \<le> 18"
    and run: "recommend_balanced mf lf rm ov = Inr rec"
  shows "pick_ok rec"
proof -
  let ?hot = "map fst (most_common 15 mf)"
  let ?ovn = "map fst (take 10 (overdue_sorted ov))"
  let ?rec = "map fst (most_common 10 rm)"
  let ?s1 = "extend_fresh [] ?hot 2"
  let ?s2 = "extend_fresh ?s1 ?ovn 2"
  let ?s3 = "extend_fresh ?s2 ?rec 1"
  let ?R = "\<lambda>n :: int. 1 \<le> n \<and> n \<le> 48"
  have h: "distinct ?hot" "list_all ?R ?hot"
    using keys_take_sort [OF mf] by (simp_all add: most_common_def)
  have o: "distinct ?ovn" "list_all ?R ?ovn"
    using keys_take_sort [OF ov] by (simp_all add: overdue_sorted_def)
  have r: "distinct ?rec" "list_all ?R ?rec"
    using keys_take_sort [OF rm] by (simp_all add: most_common_def)
  have d1: "distinct ?s1" and d2: "distinct ?s2" and d3: "distinct ?s3"
    using h(1) o(1) r(1) by (simp_all add: extend_fresh_ok(1))
  have "set ?s3 \<subseteq> set ?hot \<union> set ?ovn \<union> set ?rec"
    using extend_fresh_ok(2) [OF _ h(1), of "[]" 2] extend_fresh_ok(2) [OF d1 o(1), of 2]
      extend_fresh_ok(2) [OF d2 r(1), of 1] by auto
  with h(2) o(2) r(2) have rng: "list_all ?R ?s3"
    unfolding list_all_iff by blast
  from run obtain x kv ys where
    mc: "most_common 3 lf = x # kv # ys" and
    rec: "rec = \<lparr>main_numbers = take 5 ?s3, lucky_ball = [fst kv], reasoning = reasoning rec\<rparr>"
    by (auto simp: recommend_balanced_def Let_def split: list.splits)
  have "kv \<in> set (most_common 3 lf)" by (simp add: mc)
  then have "kv \<in> set lf"
    unfolding most_common_def using set_take_subset [of 3 "sort_key (\<lambda>kv. - snd kv) lf"]
    by auto
  with lf have l: "1 \<le> fst kv \<and> fst kv \<le> 18" by auto
  have "list_all ?R (take 5 ?s3)"
    using rng set_take_subset [of 5 ?s3] unfolding list_all_iff by blast
  with d3 l show ?thesis
    by (subst rec) (simp add: pick_ok_def)
qed

lemma append_top_mem:
  assumes "append_top selected (region_freq mf [lo..hi]) = Inr selected'"
  shows "\<exists>n. lo \<le> n \<and> n \<le> hi \<and> selected' = selected @ [n]"
proof -
  from assms obtain kv where m: "py_max snd (region_freq mf [lo..hi]) = Inr kv"
    and s: "selected' = selected @ [fst kv]"
    by (auto simp: append_top_def split: sum.splits)
  from m have "kv \<in> set (region_freq mf [lo..hi])" by (rule py_max_mem)
  then have "lo \<le> fst kv \<and> fst kv \<le> hi" by (auto simp: region_freq_def)
  with s show ?thesis by blast
qed

lemma jackpot_spread_unfold:
  assumes "recommend_jackpot_spread mf lf rm = Inr rec"
  shows "\<exists>s1 s2 s3 s4 lb.
           append_top [] (region_freq mf [1..12]) = Inr s1
         \<and> append_top s1 (region_freq mf [13..24]) = Inr s2
         \<and> append_top s2 (region_freq mf [25..36]) = Inr s3
         \<and> append_top s3 (region_freq mf [37..48]) = Inr s4
         \<and> top_lucky lf = Inr lb
         \<and> rec = \<lparr>main_numbers = sort (take 5
                 (case filter (\<lambda>num. num \<notin> set s4) (map fst (most_common 20 rm)) of
                    [] \<Rightarrow> s4 | num # _ \<Rightarrow> s4 @ [num])),
               lucky_ball = lb,
               reasoning = ''Jackpot spread: Maximum coverage across number ranges''\<rparr>"
  using assms unfolding recommend_jackpot_spread_def Let_def
  by (simp split: sum.splits)

lemma recommend_jackpot_spread_ok:
  assumes rmd: "distinct (map fst rm)" and rm5: "5 \<le> length rm"
    and rm: "\<forall>n \<in> fst ` set rm. 1 \<le> n \<and> n \<le> 48"
    and lf: "\<forall>n \<in> fst ` set lf. 1 \<le> n \<and> n \<le> 18"
    and run: "recommend_jackpot_spread mf lf rm = Inr rec"
  shows "pick_ok rec \<and> length (main_numbers rec) = 5"
proof -
  let ?R = "\<lambda>n :: int. 1 \<le> n \<and> n \<le> 48"
  from jackpot_spread_unfold [OF run] obtain s1 s2 s3 s4 lb where
    a1: "append_top [] (region_freq mf [1..12]) = Inr s1" and
    a2: "append_top s1 (region_freq mf [13..24]) = Inr s2" and
    a3: "append_top s2 (region_freq mf [25..36]) = Inr s3" and
    a4: "append_top s3 (region_freq mf [37..48]) = Inr s4" and
    tl: "top_lucky lf = Inr lb" and
    rec: "main_numbers rec = sort (take 5
                 (case filter (\<lambda>num. num \<notin> set s4) (map fst (most_common 20 rm)) of
                    [] \<Rightarrow> s4 | num # _ \<Rightarrow> s4 @ [num]))"
         "lucky_ball rec = lb"
    by fastforce
  from append_top_mem [OF a1] obtain a where a: "1 \<le> a" "a \<le> 12" "s1 = [a]" by auto
  from append_top_mem [OF a2] obtain b where b: "13 \<le> b" "b \<le> 24" "s2 = s1 @ [b]" by auto
  from append_top_mem [OF a3] obtain c where c: "25 \<le> c" "c \<le> 36" "s3 = s2 @ [c]" by auto
  from append_top_mem [OF a4] obtain d where d: "37 \<le> d" "d \<le> 48" "s4 = s3 @ [d]" by auto
  have s4: "s4 = [a, b, c, d]" using a b c d by simp
  let ?cand = "filter (\<lambda>num. num \<notin> set s4) (map fst (most_common 20 rm))"
  let ?sel = "case ?cand of [] \<Rightarrow> s4 | num # _ \<Rightarrow> s4 @ [num]"
  have d4: "distinct s4" using a b c d by (simp add: s4)
  have r4: "list_all ?R s4" using a b c d by (simp add: s4)
  have l4: "length s4 = 4" by (simp add: s4)
  let ?L = "map fst (most_common 20 rm)"
  have dL: "distinct ?L"
    using keys_take_sort(1) [OF rmd rm, of 20 "\<lambda>kv. - snd kv"] by (simp add: most_common_def)
  have lL: "5 \<le> length ?L" using rm5 by (simp add: most_common_def)
  from distinct_card [OF dL] lL have "5 \<le> card (set ?L)" by linarith
  moreover have "card (set s4) \<le> 4" using card_length [of s4] l4 by simp
  ultimately have "\<not> set ?L \<subseteq> set s4"
    using card_mono [of "set s4" "set ?L"] by auto
  then have cne: "?cand \<noteq> []" by (auto simp: filter_empty_conv)
  have sel: "length ?sel = 5 \<and> distinct ?sel \<and> list_all ?R ?sel"
  proof (cases ?cand)
    case Nil
    with cne show ?thesis by simp
  next
    case (Cons num rest)
    then have "num \<in> set ?cand" by simp
    then have f: "num \<notin> set s4" and m: "num \<in> fst ` set (most_common 20 rm)" by auto
    from m have "num \<in> fst ` set rm"
      unfolding most_common_def using set_take_subset [of 20 "sort_key (\<lambda>kv. - snd kv) rm"]
      by auto
    with rm have "?R num" by blast
    with Cons d4 r4 l4 f show ?thesis by simp
  qed
  from tl obtain kv where lbv: "lb = [fst kv]" and "kv \<in> set (most_common 1 lf)"
    by (auto simp: top_lucky_def split: list.splits)
  then have "kv \<in> set lf"
    unfolding most_common_def using set_take_subset [of 1 "sort_key (\<lambda>kv. - snd kv) lf"]
    by auto
  with lf have l: "1 \<le> fst kv \<and> fst kv \<le> 18" by auto
  from sel have "take 5 ?sel = ?sel" by simp
  with sel l lbv show ?thesis
    unfolding pick_ok_def rec by (simp add: list_all_iff)
qed

lemma head_50_nonempty: "xs \<noteq> [] \<Longrightarrow> head 50 xs \<noteq> [] \<and> set (head 50 xs) \<subseteq> set xs"
  using set_take_subset [of 50 xs] by (simp add: head_def)

text \<open>
  What does hold on a non-empty frame of well-formed draws: for the strategies
  \<^verbatim>\<open>hot\<close>, \<^verbatim>\<open>cold\<close> and \<^verbatim>\<open>recent_hot\<close>, \<^verbatim>\<open>generate_recommendations\<close> returns, with
  exactly 5 main numbers; \<^verbatim>\<open>jackpot_spread\<close> returns exactly 5 whenever it returns; and
  for every strategy name, whenever it returns, the main numbers are at most 5, pairwise
  distinct and in 1..48, and there is exactly one lucky ball, in 1..18.
\<close>

lemma recommendations_shape:
  assumes ne: "df self \<noteq> []"
    and wf: "\<forall>r \<in> set (df self). well_formed (snd r)"
    and rng: "set (main_numbers_range self) \<subseteq> {1..48}"
  shows "(strategy \<in> {''hot'', ''cold'', ''recent_hot''} \<longrightarrow>
            (\<exists>rec. generate_recommendations self strategy = Inr rec
                   \<and> length (main_numbers rec) = 5))
         \<and> (\<forall>rec. generate_recommendations self strategy = Inr rec \<longrightarrow>
                pick_ok rec
                \<and> (strategy = ''jackpot_spread'' \<longrightarrow> length (main_numbers rec) = 5))"
proof -
  let ?mf = "fst (frequency_analysis self)" and ?lf = "snd (frequency_analysis self)"
  let ?rm = "fst (recent_analysis self 50)" and ?rl = "snd (recent_analysis self 50)"
  let ?ov = "get_overdue_numbers self (3 / 2)"
  note F = freq_tables [OF ne wf, folded frequency_analysis_def]
  from head_50_nonempty [OF ne] wf have
    ne': "head 50 (df self) \<noteq> []" and wf': "\<forall>r \<in> set (head 50 (df self)). well_formed (snd r)"
    by auto
  have re: "recent_analysis self 50 = foldl count_row ([], []) (head 50 (df self))"
    by (simp add: recent_analysis_def)
  note R = freq_tables [OF ne' wf', folded re]
  have ov1: "distinct (map fst ?ov)" using overdue_keys [of self "3 / 2"] by simp
  have "fst ` set ?ov \<subseteq> {1..48}" using overdue_keys [of self "3 / 2"] rng by blast
  then have "\<forall>n \<in> fst ` set ?ov. n \<in> {1..48 :: int}" by blast
  then have ov2: "\<forall>n \<in> fst ` set ?ov. 1 \<le> n \<and> n \<le> 48" by simp
  note ov = ov1 ov2
  have lbr: "\<forall>r \<in> set (df self). 1 \<le> Lucky_Ball (snd r) \<and> Lucky_Ball (snd r) \<le> 18"
    using wf by (simp add: well_formed_def)
  consider (hot) "strategy = ''hot''" | (cold) "strategy = ''cold''"
    | (overdue) "strategy = ''overdue''" | (recent) "strategy = ''recent_hot''"
    | (spread) "strategy = ''jackpot_spread''"
    | (balanced) "strategy \<notin> {''hot'', ''cold'', ''overdue'', ''recent_hot'', ''jackpot_spread''}"
    by blast
  then show ?thesis
  proof cases
    case hot
    with recommend_hot_ok [OF F(1) F(3) F(5) F(4) F(6)] show ?thesis
      by (auto simp: generate_recommendations_def)
  next
    case cold
    with recommend_cold_ok [OF F(1) F(3) F(5) F(4) F(6)] show ?thesis
      by (auto simp: generate_recommendations_def)
  next
    case overdue
    with recommend_overdue_ok [OF ov lbr] show ?thesis
      by (auto simp: generate_recommendations_def)
  next
    case recent
    with recommend_recent_hot_ok [OF R(1) R(3) R(5) R(4) R(6)] show ?thesis
      by (auto simp: generate_recommendations_def)
  next
    case spread
    with recommend_jackpot_spread_ok [OF R(1) R(3) R(5) F(6)] show ?thesis
      by (auto simp: generate_recommendations_def)
  next
    case balanced
    with recommend_balanced_ok [OF F(1) F(5) R(1) R(5) ov F(6)] show ?thesis
      by (auto simp: generate_recommendations_def)
  qed
qed

text \<open>
  Claim C2. The claim is that every strategy returns exactly 5 main numbers on every
  non-empty history, and the tests \<^verbatim>\<open>test_overdue_strategy\<close>, \<^verbatim>\<open>test_balanced_strategy\<close>
  and \<^verbatim>\<open>test_empty_recommendations\<close> assert it on their fixture. On the three well-formed
  draws of that fixture \<^verbatim>\<open>overdue\<close> returns no main number, and \<^verbatim>\<open>balanced\<close> and the
  fallback for an unknown name return three; on a single draw \<^verbatim>\<open>balanced\<close> raises
  \<^verbatim>\<open>IndexError\<close> and \<^verbatim>\<open>jackpot_spread\<close> can raise \<^verbatim>\<open>ValueError\<close>.
\<close>

theorem fixture_picks_short:
  "test_data \<noteq> [] \<and> list_all well_formed test_data
   \<and> map_sum id main_numbers
       (generate_recommendations (LuckyForLifeAnalyzer test_data) ''overdue'') = Inr []
   \<and> map_sum id main_numbers
       (generate_recommendations (LuckyForLifeAnalyzer test_data) ''balanced'') = Inr [22, 3, 10]
   \<and> map_sum id main_numbers
       (generate_recommendations (LuckyForLifeAnalyzer test_data) ''invalid_strategy'')
       = Inr [22, 3, 10]
   \<and> generate_recommendations (LuckyForLifeAnalyzer [hd test_data]) ''balanced''
       = Inl IndexError
   \<and> generate_recommendations (LuckyForLifeAnalyzer [hd repeat_data]) ''jackpot_spread''
       = Inl ValueError"
  by code_simp

section \<open>Walk-forward backtester: tickets played\<close>

lemma simulate_pick_tickets:
  assumes "simulate_pick t w wl res s = Inr res'"
  shows "dom (map_of res') = dom (map_of res)
    \<and> tickets_of res' s' = tickets_of res s' + (if s' = s then 1 else 0)"
  using assms
  by (auto simp: simulate_pick_def Let_def tickets_of_def update_conv'
      split: sum.splits list.splits option.splits if_splits)

lemma simulate_strategies_tickets:
  "simulate_strategies t w wl res ss = Inr res' \<Longrightarrow>
     dom (map_of res') = dom (map_of res)
     \<and> tickets_of res' s' = tickets_of res s' + int (count_list ss s')"
proof (induction ss arbitrary: res)
  case Nil
  then show ?case by simp
next
  case (Cons s ss)
  from Cons.prems obtain res1 where
    p: "simulate_pick t w wl res s = Inr res1" and
    r: "simulate_strategies t w wl res1 ss = Inr res'"
    by (auto split: sum.splits)
  from Cons.IH [OF r] simulate_pick_tickets [OF p, of s'] show ?case
    by auto
qed

lemma backtest_loop_tickets:
  "backtest_loop self test_draws strategies res idxs = Inr res' \<Longrightarrow>
     dom (map_of res') = dom (map_of res)
     \<and> tickets_of res' s' = tickets_of res s'
         + int (count_list strategies s') * int (length (filter (enough_history self) idxs))"
proof (induction idxs arbitrary: res)
  case Nil
  then show ?case by simp
next
  case (Cons idx idxs)
  show ?case
  proof (cases "enough_history self idx")
    case False
    with Cons show ?thesis by (simp add: enough_history_def)
  next
    case True
    with Cons.prems obtain res1 where
      p: "simulate_strategies (temp_analyzer self idx)
            (numbers_in_draw (snd (test_draws ! idx))) (Lucky_Ball (snd (test_draws ! idx)))
            res strategies = Inr res1" and
      r: "backtest_loop self test_draws strategies res1 idxs = Inr res'"
      by (auto simp: enough_history_def Let_def split: sum.splits)
    from Cons.IH [OF r] simulate_strategies_tickets [OF p, of s'] True show ?thesis
      by (simp add: algebra_simps)
  qed
qed

lemma initial_results_lookup:
  "map_of (initial_results strategies) s =
     (if s \<in> set strategies
      then Some \<lparr>wins = 0, total_prize = 0, tickets = 0, matches_dist = []\<rparr> else None)"
  unfolding initial_results_def by (simp add: map_of_foldl_update)

lemma length_head_le: "0 \<le> n \<Longrightarrow> int (length (head n xs)) \<le> n"
  by (simp add: head_def)

lemma count_list_distinct: "distinct xs \<Longrightarrow> x \<in> set xs \<Longrightarrow> count_list xs x = 1"
  by (induction xs) auto

lemma filter_upt_all:
  "length (filter P [0..<n]) = n \<Longrightarrow> \<forall>i<n. P i"
proof -
  assume "length (filter P [0..<n]) = n"
  then have "length (filter P [0..<n]) = length [0..<n]" by simp
  then have "\<forall>x \<in> set [0..<n]. P x"
    by (metis length_filter_less linorder_not_less order.refl)
  then show ?thesis by simp
qed

text \<open>
  Claim C5, as the code has it. When \<^verbatim>\<open>backtest_strategies\<close> returns, for a list of
  distinct strategy names (the default list when none is given) and a lookback that is
  not negative, the tickets of every strategy count exactly the indices of the lookback
  window whose suffix \<^verbatim>\<open>df.iloc[idx+1:]\<close> has at least 50 draws: an index with a shorter
  suffix is skipped and adds no ticket. So the tickets are at most \<^verbatim>\<open>lookback_draws\<close>,
  and they equal it only if every index below \<^verbatim>\<open>lookback_draws\<close> met the floor.
\<close>

theorem backtest_tickets_bound:
  assumes run: "backtest_strategies self lookback_draws strategies = Inr results"
    and dist: "distinct (case strategies of None \<Rightarrow> default_strategies | Some ss \<Rightarrow> ss)"
    and lb: "0 \<le> lookback_draws"
    and s: "map_of results s = Some r"
  shows "tickets r = int (length (filter (enough_history self)
                        [0..<length (head lookback_draws (df self))]))
         \<and> tickets r \<le> lookback_draws
         \<and> (tickets r = lookback_draws \<longrightarrow>
              (\<forall>idx < nat lookback_draws. enough_history self idx))"
proof -
  let ?n = "length (head lookback_draws (df self))"
  let ?ss = "case strategies of None \<Rightarrow> default_strategies | Some ss \<Rightarrow> ss"
  from run have loop:
    "backtest_loop self (head lookback_draws (df self)) ?ss (initial_results ?ss)
       [0..<?n] = Inr results"
    by (auto simp: backtest_strategies_def Let_def split: sum.splits)
  from backtest_loop_tickets [OF loop, of s] have
    d: "dom (map_of results) = dom (map_of (initial_results ?ss))" and
    t: "tickets_of results s = tickets_of (initial_results ?ss) s
          + int (count_list ?ss s) * int (length (filter (enough_history self) [0..<?n]))"
    by simp_all
  from s d have mem: "s \<in> set ?ss"
    by (auto simp: initial_results_lookup dom_def split: if_splits)
  from dist mem have c: "count_list ?ss s = 1" by (rule count_list_distinct)
  from t s mem c have eq:
    "tickets r = int (length (filter (enough_history self) [0..<?n]))"
    by (simp add: tickets_of_def initial_results_lookup)
  have le1: "length (filter (enough_history self) [0..<?n]) \<le> ?n"
    using length_filter_le [of "enough_history self" "[0..<?n]"] by simp
  have le2: "int ?n \<le> lookback_draws" using lb by (rule length_head_le)
  have imp: "tickets r = lookback_draws \<longrightarrow> (\<forall>idx < nat lookback_draws. enough_history self idx)"
  proof
    assume e: "tickets r = lookback_draws"
    with eq le1 le2 have n: "?n = nat lookback_draws"
      and f: "length (filter (enough_history self) [0..<?n]) = ?n" by linarith+
    from filter_upt_all [OF f] n show "\<forall>idx < nat lookback_draws. enough_history self idx"
      by simp
  qed
  from eq le1 le2 have "tickets r \<le> lookback_draws" by linarith
  with eq imp show ?thesis by blast
qed

theorem backtest_tickets_bound_witness:
  "(\<exists>results r.
      backtest_strategies (LuckyForLifeAnalyzer (target_draw # older_draws)) 2
        (Some [''overdue'']) = Inr results
      \<and> map_of results ''overdue'' = Some r \<and> tickets r = 1 \<and> tickets r \<le> 2
      \<and> \<not> enough_history (LuckyForLifeAnalyzer (target_draw # older_draws)) 1)
   \<and> (\<exists>results r.
      backtest_strategies (LuckyForLifeAnalyzer (target_draw # older_draws)) 1
        (Some [''overdue'']) = Inr results
      \<and> map_of results ''overdue'' = Some r \<and> tickets r = 1
      \<and> enough_history (LuckyForLifeAnalyzer (target_draw # older_draws)) 0)"
proof -
  let ?A = "LuckyForLifeAnalyzer (target_draw # older_draws)"
  have d: "distinct (case Some [''overdue''] of None \<Rightarrow> default_strategies | Some ss \<Rightarrow> ss)"
    by simp
  have short: "\<not> enough_history ?A 1" by code_simp
  have "map_sum id (map (\<lambda>x. (fst x, tickets (snd x))))
          (backtest_strategies ?A 2 (Some [''overdue''])) = Inr [(''overdue'', 1)]"
    by code_simp
  then obtain res2 where run2: "backtest_strategies ?A 2 (Some [''overdue'']) = Inr res2"
    and m2: "map (\<lambda>x. (fst x, tickets (snd x))) res2 = [(''overdue'', 1)]"
    by (cases "backtest_strategies ?A 2 (Some [''overdue''])") auto
  from m2 obtain r2 where s2: "map_of res2 ''overdue'' = Some r2" and t2: "tickets r2 = 1"
    by (cases res2) auto
  from backtest_tickets_bound [OF run2 d _ s2] have b2: "tickets r2 \<le> 2" by simp
  have "map_sum id (map (\<lambda>x. (fst x, tickets (snd x))))
          (backtest_strategies ?A 1 (Some [''overdue''])) = Inr [(''overdue'', 1)]"
    by code_simp
  then obtain res1 where run1: "backtest_strategies ?A 1 (Some [''overdue'']) = Inr res1"
    and m1: "map (\<lambda>x. (fst x, tickets (snd x))) res1 = [(''overdue'', 1)]"
    by (cases "backtest_strategies ?A 1 (Some [''overdue''])") auto
  from m1 obtain r1 where s1: "map_of res1 ''overdue'' = Some r1" and t1: "tickets r1 = 1"
    by (cases res1) auto
  from backtest_tickets_bound [OF run1 d _ s1] t1 have e1: "enough_history ?A 0" by simp
  from run2 s2 t2 b2 short have
    "\<exists>results r. backtest_strategies ?A 2 (Some [''overdue'']) = Inr results
      \<and> map_of results ''overdue'' = Some r \<and> tickets r = 1 \<and> tickets r \<le> 2
      \<and> \<not> enough_history ?A 1"
    by (intro exI [of _ res2] exI [of _ r2]) simp
  moreover from run1 s1 t1 e1 have
    "\<exists>results r. backtest_strategies ?A 1 (Some [''overdue'']) = Inr results
      \<and> map_of results ''overdue'' = Some r \<and> tickets r = 1 \<and> enough_history ?A 0"
    by (intro exI [of _ res1] exI [of _ r1]) simp
  ultimately show ?thesis by (rule conjI)
qed

text \<open>
  The claim C5 at concrete inputs, on a history of 51 draws, where only index 0 has 50
  older draws. With a lookback of -1, \<^verbatim>\<open>df.head(-1)\<close> is all rows but the last, index 0
  is simulated and the strategy has 1 ticket, more than the lookback. With a strategy
  name given twice and a lookback of 1, the one entry of the name is incremented twice
  at index 0 and has 2 tickets.
\<close>

theorem backtest_tickets_exceed_lookback:
  "map_sum id (map (\<lambda>x. (fst x, tickets (snd x))))
     (backtest_strategies (LuckyForLifeAnalyzer (target_draw # older_draws)) (- 1)
        (Some [''overdue'']))
     = Inr [(''overdue'', 1)]
   \<and> map_sum id (map (\<lambda>x. (fst x, tickets (snd x))))
     (backtest_strategies (LuckyForLifeAnalyzer (target_draw # older_draws)) 1
        (Some [''overdue'', ''overdue'']))
     = Inr [(''overdue'', 2)]"
  by code_simp

section \<open>Walk-forward backtester: the history seen at an index\<close>

text \<open>
  The temporary analyzer for index \<open>idx\<close> is the same for two histories of the same
  length that agree on the draws after \<open>idx\<close>: changing the contents of the draws at
  indices up to \<open>idx\<close> changes no recommendation at \<open>idx\<close>.
\<close>

lemma temp_analyzer_newer_contents:
  assumes "length rows = length rows'" and "drop (Suc idx) rows = drop (Suc idx) rows'"
  shows "temp_analyzer (LuckyForLifeAnalyzer rows) idx
           = temp_analyzer (LuckyForLifeAnalyzer rows') idx"
  using assms
  by (simp add: temp_analyzer_def historical_data_def LuckyForLifeAnalyzer_def
      reset_index_def drop_zip)

text \<open>
  Claim C1. The claim is that the recommendation scored against a draw depends only on
  the draws older than it, so that removing a more recent draw changes nothing. Here the
  target draw and the fifty older draws are the same in both runs; the first history has
  one more recent draw, so the target is at index 1 there and at index 0 in the second
  history. The \<^verbatim>\<open>overdue\<close> recommendations differ, and so do the prizes the backtest
  adds for the target draw (6 and 4): the rows of \<^verbatim>\<open>self.df.iloc[idx+1:]\<close> keep the
  labels \<open>idx+1\<close>, ... of the full frame, and \<^verbatim>\<open>gap_analysis\<close> computes the current gap
  from the labels.
\<close>

theorem backtest_recommendation_depends_on_index:
  "map snd (historical_data (LuckyForLifeAnalyzer (newer_draw # target_draw # older_draws)) 1)
     = map snd (historical_data (LuckyForLifeAnalyzer (target_draw # older_draws)) 0)
   \<and> snd (df (LuckyForLifeAnalyzer (newer_draw # target_draw # older_draws)) ! 1)
     = snd (df (LuckyForLifeAnalyzer (target_draw # older_draws)) ! 0)
   \<and> map_sum id main_numbers
        (generate_recommendations
           (temp_analyzer (LuckyForLifeAnalyzer (newer_draw # target_draw # older_draws)) 1)
           ''overdue'')
     = Inr [45, 46, 47, 48, 1]
   \<and> map_sum id main_numbers
        (generate_recommendations
           (temp_analyzer (LuckyForLifeAnalyzer (target_draw # older_draws)) 0) ''overdue'')
     = Inr [45, 46, 47, 48]
   \<and> map_sum id (map (\<lambda>x. total_prize (snd x)))
        (simulate_strategies
           (temp_analyzer (LuckyForLifeAnalyzer (newer_draw # target_draw # older_draws)) 1)
           (numbers_in_draw target_draw) (Lucky_Ball target_draw)
           (initial_results [''overdue'']) [''overdue''])
     = Inr [6]
   \<and> map_sum id (map (\<lambda>x. total_prize (snd x)))
        (simulate_strategies
           (temp_analyzer (LuckyForLifeAnalyzer (target_draw # older_draws)) 0)
           (numbers_in_draw target_draw) (Lucky_Ball target_draw)
           (initial_results [''overdue'']) [''overdue''])
     = Inr [4]"
  by code_simp

section \<open>Gap and overdue analyzer: properties\<close>

lemma last_seen_numbers:
  "map_of (fst (foldl (gap_see idx) st ns)) n
     = (if n \<in> set ns then Some idx else map_of (fst st) n)"
  by (induction ns arbitrary: st) (auto simp: gap_see_def Let_def update_conv')

lemma last_seen_rows:
  "map_of (fst (foldl gap_row st rows)) n
     = (case filter (\<lambda>r. n \<in> set (numbers_in_draw (snd r))) rows of
          [] \<Rightarrow> map_of (fst st) n
        | r # rs \<Rightarrow> Some (fst (last (r # rs))))"
proof (induction rows arbitrary: st)
  case Nil
  then show ?case by simp
next
  case (Cons r rows)
  have step: "map_of (fst (gap_row st r)) n
     = (if n \<in> set (numbers_in_draw (snd r)) then Some (fst r) else map_of (fst st) n)"
    by (simp add: gap_row_def last_seen_numbers)
  show ?case
    by (simp add: Cons.IH step split: list.splits)
qed

text \<open>
  The current-gap table of \<^verbatim>\<open>gap_analysis\<close>: for a number of the range that some row
  shows, minus the label of the last such row of the frame, which is the oldest draw
  showing it; for a number that no row shows, the length of the frame.
\<close>

lemma current_gap_label:
  assumes "n \<in> set (main_numbers_range self)"
  shows "map_of (snd (gap_analysis self)) n
     = Some (case filter (\<lambda>r. n \<in> set (numbers_in_draw (snd r))) (df self) of
               [] \<Rightarrow> int (length (df self))
             | r # rs \<Rightarrow> - fst (last (r # rs)))"
  using assms
  by (simp add: gap_analysis_def Let_def map_of_foldl_update last_seen_rows split: list.splits)

lemma foldl_cond_update_keys:
  "fst ` set (foldl (\<lambda>acc n. if c n then AList.update n (v n) acc else acc) acc0 ns)
     = fst ` set acc0 \<union> {n \<in> set ns. c n}"
  by (induction ns arbitrary: acc0) (auto simp: dom_update)

text \<open>
  What \<^verbatim>\<open>get_overdue_numbers\<close> computes from the two tables of \<^verbatim>\<open>gap_analysis\<close>: a
  number of the range is a key of the result exactly when it has an average gap and the
  absolute value of its entry in the current-gap table exceeds the average times the
  multiplier.
\<close>

lemma overdue_membership:
  "n \<in> fst ` set (get_overdue_numbers self t) \<longleftrightarrow>
     n \<in> set (main_numbers_range self)
     \<and> (\<exists>avg cg. map_of (fst (gap_analysis self)) n = Some avg
                \<and> map_of (snd (gap_analysis self)) n = Some cg
                \<and> exceeds \<bar>cg\<bar> avg t)"
proof -
  let ?avg = "map_of (fst (gap_analysis self))" and ?cur = "map_of (snd (gap_analysis self))"
  let ?c = "\<lambda>n. \<exists>avg cg. ?avg n = Some avg \<and> ?cur n = Some cg \<and> exceeds \<bar>cg\<bar> avg t"
  let ?v = "\<lambda>n. \<lparr>current_gap = \<bar>the (?cur n)\<bar>, avg_gap = round_avg (the (?avg n)),
                  ratio = round_ratio \<bar>the (?cur n)\<bar> (the (?avg n))\<rparr>"
  have "(\<lambda>overdue num.
           case (?avg num, ?cur num) of
             (Some avg, Some cg) \<Rightarrow>
               (let current = \<bar>cg\<bar>
                in if exceeds current avg t
                   then AList.update num
                          \<lparr>current_gap = current, avg_gap = round_avg avg,
                           ratio = round_ratio current avg\<rparr> overdue
                   else overdue)
           | _ \<Rightarrow> overdue)
        = (\<lambda>acc n. if ?c n then AList.update n (?v n) acc else acc)"
    by (intro ext) (auto simp: Let_def split: option.splits)
  then have "get_overdue_numbers self t
        = foldl (\<lambda>acc n. if ?c n then AList.update n (?v n) acc else acc) []
            (main_numbers_range self)"
    by (simp add: get_overdue_numbers_def Let_def)
  then show ?thesis
    by (auto simp: foldl_cond_update_keys)
qed

text \<open>
  Claim C4. The claim takes the current gap of a number to be the draws since it was last
  seen. In \<open>repeat_data\<close> the number 1 is in every draw, the most recent one included: it
  was last seen 0 draws ago and its average gap is 1, so by the claim it is not overdue at
  the multiplier 1.5. \<^verbatim>\<open>gap_analysis\<close> overwrites \<^verbatim>\<open>last_seen[num]\<close> at every appearance
  while it walks from the most recent draw to the oldest, so its current gap is the label
  of the oldest appearance, here 2, and \<^verbatim>\<open>get_overdue_numbers\<close> reports the number 1 as
  overdue with ratio 2.
\<close>

theorem overdue_uses_oldest_appearance:
  "draws_since_last_seen repeat_data 1 = 0
   \<and> map_of (fst (gap_analysis (LuckyForLifeAnalyzer repeat_data))) 1 = Some (Some 1)
   \<and> map_of (snd (gap_analysis (LuckyForLifeAnalyzer repeat_data))) 1 = Some (- 2)
   \<and> get_overdue_numbers (LuckyForLifeAnalyzer repeat_data) (3 / 2)
       = [(1, \<lparr>current_gap = 2, avg_gap = Some 1, ratio = Some 2\<rparr>)]"
  by code_simp

end
